theory Spec2Isabelle
  imports Complex_Main "HOL-Library.AList"
begin

section \<open>AlarmGenie: alarm lifecycle and dismissal engine\<close>

text \<open>
  A shallow embedding of the JavaScript services and of the dismissal screen:
  \<^item> \<^verbatim>\<open>MistralService\<close> (src/alarm-app/src/services/MistralService.js),
  \<^item> \<^verbatim>\<open>NotificationService\<close> (src/alarm-app/src/services/NotificationService.js, lines 1-238),
  \<^item> \<^verbatim>\<open>AlarmStorage\<close> (src/unnamed/part_000, lines 223-451),
  \<^item> \<^verbatim>\<open>DismissAlarmScreen\<close> (src/unnamed/part_004).

  Conventions. A \<^verbatim>\<open>Date\<close> is its number of milliseconds since the epoch (an \<open>int\<close>).
  A JavaScript string is a \<open>string\<close>; the characters that occur are ASCII.
  \<^verbatim>\<open>null\<close> and \<^verbatim>\<open>undefined\<close> are \<open>None\<close>. A plain object that is used as a
  dictionary is an association list of its own properties, and what it inherits from
  \<^verbatim>\<open>Object.prototype\<close> is modelled beside it. Every value the code reads from
  the outside (the clock, \<^verbatim>\<open>Math.random\<close>, the notifIdentifier returned by the platform
  scheduler) is a parameter of the function that reads it, one parameter per read.
\<close>

subsection \<open>Strings and numbers\<close>

definition digitChar :: "nat \<Rightarrow> char" where
  "digitChar d = char_of (48 + d)"

text \<open>\<^verbatim>\<open>Number.prototype.toString()\<close> on a non-negative integer: its decimal digits.\<close>

function natToString :: "nat \<Rightarrow> string" where
  "natToString n =
     (if n < 10 then [digitChar n] else natToString (n div 10) @ [digitChar (n mod 10)])"
  by pat_completeness auto
termination
  by (relation "measure (\<lambda>n. n)") auto

declare natToString.simps [simp del]

definition toString :: "int \<Rightarrow> string" where
  "toString t = (if t < 0 then CHR ''-'' # natToString (nat (- t)) else natToString (nat t))"

text \<open>
  \<^verbatim>\<open>String.prototype.charCodeAt(i)\<close>: the code unit at \<open>i\<close>, or \<^verbatim>\<open>NaN\<close> (here \<open>None\<close>)
  out of range. \<^verbatim>\<open>String.prototype.charAt(i)\<close>: the one-character string at \<open>i\<close>, or
  the empty string out of range.
\<close>

definition charCodeAt :: "string \<Rightarrow> nat \<Rightarrow> nat option" where
  "charCodeAt s i = (if i < length s then Some (of_char (s ! i)) else None)"

definition charAt :: "string \<Rightarrow> nat \<Rightarrow> string" where
  "charAt s i = (if i < length s then [s ! i] else [])"

definition isSpace :: "char \<Rightarrow> bool" where
  "isSpace c = (of_char c \<in> {9, 10, 11, 12, 13, 32 :: nat})"

text \<open>\<^verbatim>\<open>String.prototype.trim()\<close> and \<^verbatim>\<open>toUpperCase()\<close> on ASCII text.\<close>

definition trim :: "string \<Rightarrow> string" where
  "trim s = rev (dropWhile isSpace (rev (dropWhile isSpace s)))"

definition upperChar :: "char \<Rightarrow> char" where
  "upperChar c =
     (if (97::nat) \<le> of_char c \<and> of_char c \<le> (122::nat) then char_of (of_char c - (32::nat)) else c)"

definition toUpperCase :: "string \<Rightarrow> string" where
  "toUpperCase s = map upperChar s"

subsection \<open>MistralService: the code generator\<close>

record code_record =
  code :: string
  timestamp :: int
  expiresAt :: int
  createdAt :: "int option"
  attempts :: "int option"

definition characters :: string where
  "characters = ''ABCDEFGHIJKLMNOPQRSTUVWXYZ0123456789''"

text \<open>
  One iteration of the loop of \<^verbatim>\<open>generateSecureCode\<close>. \<open>r\<close> is the value of the
  \<^verbatim>\<open>Math.random()\<close> call of this iteration. When \<^verbatim>\<open>charCodeAt\<close> is \<^verbatim>\<open>NaN\<close> the
  index arithmetic stays \<^verbatim>\<open>NaN\<close> and \<^verbatim>\<open>charAt(NaN)\<close> reads position 0.
\<close>

definition finalIndex :: "string \<Rightarrow> nat \<Rightarrow> real \<Rightarrow> nat option" where
  "finalIndex entropy i r =
     (case charCodeAt entropy (i mod length entropy) of
        None \<Rightarrow> None
      | Some c \<Rightarrow>
          (let seedIndex = (c + i) mod length characters;
               randomIndex = nat \<lfloor>r * real (length characters)\<rfloor>
           in Some ((seedIndex + randomIndex) mod length characters)))"

definition pickChar :: "string \<Rightarrow> nat \<Rightarrow> real \<Rightarrow> string" where
  "pickChar entropy i r =
     charAt characters (case finalIndex entropy i r of None \<Rightarrow> 0 | Some k \<Rightarrow> k)"

text \<open>
  The loop \<^verbatim>\<open>for (let i = 0; i < 8; i++) code += ...\<close>; \<open>rnd i\<close> is the random
  number drawn in iteration \<open>i\<close>.
\<close>

function codeLoop :: "string \<Rightarrow> (nat \<Rightarrow> real) \<Rightarrow> nat \<Rightarrow> string \<Rightarrow> string" where
  "codeLoop entropy rnd i acc =
     (if i < 8 then codeLoop entropy rnd (Suc i) (acc @ pickChar entropy i (rnd i)) else acc)"
  by pat_completeness auto
termination
  by (relation "measure (\<lambda>(entropy, rnd, i, acc). 8 - i)") auto

declare codeLoop.simps [simp del]

text \<open>
  \<^verbatim>\<open>generateSecureCode\<close>: \<open>t0\<close> is \<^verbatim>\<open>Date.now()\<close>, \<open>random1\<close> and \<open>random2\<close> are
  the base-36 renderings of two random numbers, \<open>rnd\<close> the eight draws of the loop.
\<close>

definition generateSecureCode :: "int \<Rightarrow> string \<Rightarrow> string \<Rightarrow> (nat \<Rightarrow> real) \<Rightarrow> string" where
  "generateSecureCode t0 random1 random2 rnd =
     (let entropy = toString t0 @ random1 @ random2 in codeLoop entropy rnd 0 [])"

text \<open>
  \<^verbatim>\<open>generateDismissalCode\<close>. The object literal reads the clock twice:
  \<open>tIssued\<close> is the \<^verbatim>\<open>Date.now()\<close> stored as \<^verbatim>\<open>timestamp\<close>, \<open>tExpiry\<close> the
  \<^verbatim>\<open>Date.now()\<close> that \<^verbatim>\<open>expiresAt\<close> is computed from. Nothing in the \<^verbatim>\<open>try\<close>
  block throws, so the function always returns.
\<close>

definition generateDismissalCode ::
  "int \<Rightarrow> string \<Rightarrow> string \<Rightarrow> (nat \<Rightarrow> real) \<Rightarrow> int \<Rightarrow> int \<Rightarrow> code_record" where
  "generateDismissalCode t0 random1 random2 rnd tIssued tExpiry =
     \<lparr> code = generateSecureCode t0 random1 random2 rnd,
       timestamp = tIssued,
       expiresAt = tExpiry + 10 * 60 * 1000,
       createdAt = None,
       attempts = None \<rparr>"

text \<open>\<^verbatim>\<open>isValidCode\<close>: the regular expression \<^verbatim>\<open>/^[A-Z0-9]{8}$/\<close>.\<close>

definition codeChar :: "char \<Rightarrow> bool" where
  "codeChar c =
     (((65::nat) \<le> of_char c \<and> of_char c \<le> (90::nat)) \<or>
      ((48::nat) \<le> of_char c \<and> of_char c \<le> (57::nat)))"

definition isValidCode :: "string \<Rightarrow> bool" where
  "isValidCode s = (length s = 8 \<and> list_all codeChar s)"

subsection \<open>Dates in the local time zone\<close>

text \<open>
  The local zone is a fixed offset \<open>tz\<close> (in milliseconds) from UTC, without
  daylight-saving transitions. \<^verbatim>\<open>getDay\<close> counts from Sunday = 0; the epoch was a
  Thursday. \<^verbatim>\<open>d.setDate(d.getDate() + 1)\<close> moves a date to the same clock time of the
  next calendar day, which in such a zone is 24 hours later.
\<close>

definition getHours :: "int \<Rightarrow> int \<Rightarrow> int" where
  "getHours tz t = ((t + tz) div 3600000) mod 24"

definition getMinutes :: "int \<Rightarrow> int \<Rightarrow> int" where
  "getMinutes tz t = ((t + tz) div 60000) mod 60"

definition getDay :: "int \<Rightarrow> int \<Rightarrow> int" where
  "getDay tz t = ((t + tz) div 86400000 + 4) mod 7"

definition setDatePlusOne :: "int \<Rightarrow> int" where
  "setDatePlusOne t = t + 24 * 60 * 60 * 1000"

subsection \<open>Records, the persistent store and the platform\<close>

text \<open>
  An alarm as stored under \<^verbatim>\<open>@alarms\<close>. \<open>aId\<close> is the field \<^verbatim>\<open>id\<close> and
  \<open>alarmCreatedAt\<close> the field \<^verbatim>\<open>createdAt\<close>; \<open>time\<close> is the instant that the stored
  ISO string denotes.
\<close>

record alarm_record =
  aId :: string
  time :: int
  label :: string
  frequency :: string
  duration :: int
  isActive :: bool
  alarmCreatedAt :: int
  notificationId :: "string option"

text \<open>The argument of \<^verbatim>\<open>addAlarm\<close>, as \<^verbatim>\<open>CreateAlarmScreen.saveAlarm\<close> builds it.\<close>

record alarm_data =
  dataTime :: int
  dataLabel :: string
  dataFrequency :: string
  dataDuration :: int

text \<open>
  The argument \<^verbatim>\<open>updates\<close> of \<^verbatim>\<open>updateAlarm\<close>: an object that has some of the
  fields of an alarm. \<open>None\<close> is an absent field; \<open>Some None\<close> in
  \<open>patchNotificationId\<close> is \<^verbatim>\<open>notificationId: null\<close>.
\<close>

record alarm_patch =
  patchTime :: "int option"
  patchLabel :: "string option"
  patchFrequency :: "string option"
  patchDuration :: "int option"
  patchIsActive :: "bool option"
  patchNotificationId :: "string option option"

text \<open>The object spread \<^verbatim>\<open>{ ...alarm, ...updates }\<close>.\<close>

definition spreadUpdates :: "alarm_record \<Rightarrow> alarm_patch \<Rightarrow> alarm_record" where
  "spreadUpdates a u =
     a\<lparr> time := (case patchTime u of None \<Rightarrow> time a | Some v \<Rightarrow> v),
        label := (case patchLabel u of None \<Rightarrow> label a | Some v \<Rightarrow> v),
        frequency := (case patchFrequency u of None \<Rightarrow> frequency a | Some v \<Rightarrow> v),
        duration := (case patchDuration u of None \<Rightarrow> duration a | Some v \<Rightarrow> v),
        isActive := (case patchIsActive u of None \<Rightarrow> isActive a | Some v \<Rightarrow> v),
        notificationId :=
          (case patchNotificationId u of None \<Rightarrow> notificationId a | Some v \<Rightarrow> v) \<rparr>"

datatype trigger =
    DateTrigger int
  | DailyTrigger int int
  | WeeklyTrigger int int int
  | NoTrigger

record scheduled_notification =
  notifIdentifier :: string
  dataAlarmId :: string
  notifTrigger :: trigger

datatype alert =
    MaximumAttemptsExceeded
  | AlarmDismissed
  | TooManyFailedAttempts
  | IncorrectCode int
  | AlarmTimeout

text \<open>
  What the program does to the outside, in the order it does it: writes to the
  store, dialogs shown to the user, navigation.
\<close>

datatype event =
    SetAlarms "alarm_record list"
  | SetCodes "(string \<times> code_record) list"
  | Alerted alert
  | Navigated string

text \<open>
  The world outside the program. \<open>alarmsItem\<close> and \<open>codesItem\<close> are the values
  stored under \<^verbatim>\<open>@alarms\<close> and \<^verbatim>\<open>@dismissal_codes\<close>, parsed; an absent item is the
  empty list, which is what \<^verbatim>\<open>loadAlarms\<close> and \<^verbatim>\<open>loadDismissalCodes\<close> make of it.
  \<open>pending\<close> are the notifications the platform has scheduled. \<open>faults\<close> says, for
  each coming call into the platform (\<^verbatim>\<open>AsyncStorage\<close>, \<^verbatim>\<open>Notifications\<close>, audio)
  in turn, whether it throws; past the end of the list no call throws.
  \<open>prototypeAttempts\<close> belongs to the running JavaScript process: it holds the own
  property \<^verbatim>\<open>attempts\<close> of the objects that a dictionary inherits from
  \<^verbatim>\<open>Object.prototype\<close>, under the name by which the dictionary reaches them (see
  \<open>incrementCodeAttempts\<close>); in a fresh process it is empty.
\<close>

record world =
  alarmsItem :: "alarm_record list"
  codesItem :: "(string \<times> code_record) list"
  pending :: "scheduled_notification list"
  faults :: "bool list"
  log :: "event list"
  android :: bool
  tzOffset :: int
  prototypeAttempts :: "(string \<times> int) list"

datatype 'a result = Ok 'a | Threw

definition extcall :: "world \<Rightarrow> bool \<times> world" where
  "extcall w = (case faults w of [] \<Rightarrow> (False, w) | f # fs \<Rightarrow> (f, w\<lparr>faults := fs\<rparr>))"

definition emit :: "event \<Rightarrow> world \<Rightarrow> world" where
  "emit e w = w\<lparr>log := log w @ [e]\<rparr>"

text \<open>JavaScript truthiness of a string that may be \<^verbatim>\<open>null\<close>.\<close>

definition truthy :: "string option \<Rightarrow> bool" where
  "truthy v = (case v of None \<Rightarrow> False | Some s \<Rightarrow> s \<noteq> [])"

subsection \<open>NotificationService: scheduling\<close>

definition setupNotificationChannels :: "world \<Rightarrow> unit result \<times> world" where
  "setupNotificationChannels w =
     (if android w then
        (case extcall w of (True, w1) \<Rightarrow> (Threw, w1) | (False, w1) \<Rightarrow> (Ok (), w1))
      else (Ok (), w))"

text \<open>The trigger that \<^verbatim>\<open>scheduleAlarm\<close> computes; \<open>now\<close> is \<^verbatim>\<open>new Date()\<close>.\<close>

definition alarmTrigger :: "int \<Rightarrow> alarm_record \<Rightarrow> int \<Rightarrow> trigger" where
  "alarmTrigger tz alarm now =
     (let alarmTime = time alarm in
      if frequency alarm = ''once'' then
        (let scheduledTime = (if alarmTime \<le> now then setDatePlusOne alarmTime else alarmTime)
         in DateTrigger scheduledTime)
      else if frequency alarm = ''daily'' then
        DailyTrigger (getHours tz alarmTime) (getMinutes tz alarmTime)
      else if frequency alarm = ''weekly'' then
        WeeklyTrigger (getDay tz alarmTime + 1) (getHours tz alarmTime) (getMinutes tz alarmTime)
      else NoTrigger)"

text \<open>
  \<^verbatim>\<open>scheduleAlarm\<close>; \<open>nid\<close> is the notifIdentifier that
  \<^verbatim>\<open>Notifications.scheduleNotificationAsync\<close> returns. Every exception is rethrown.
\<close>

definition scheduleAlarm :: "alarm_record \<Rightarrow> int \<Rightarrow> string \<Rightarrow> world \<Rightarrow> string result \<times> world" where
  "scheduleAlarm alarm now nid w =
     (case setupNotificationChannels w of
        (Threw, w1) \<Rightarrow> (Threw, w1)
      | (Ok u, w1) \<Rightarrow>
          (let trigger = alarmTrigger (tzOffset w1) alarm now in
           case extcall w1 of
             (True, w2) \<Rightarrow> (Threw, w2)
           | (False, w2) \<Rightarrow>
               (Ok nid,
                w2\<lparr>pending := pending w2 @
                  [\<lparr>notifIdentifier = nid, dataAlarmId = aId alarm, notifTrigger = trigger\<rparr>]\<rparr>)))"

definition cancelAlarm :: "string option \<Rightarrow> world \<Rightarrow> unit result \<times> world" where
  "cancelAlarm notifId w =
     (if truthy notifId then
        (case extcall w of
           (True, w1) \<Rightarrow> (Threw, w1)
         | (False, w1) \<Rightarrow>
             (Ok (), w1\<lparr>pending := filter (\<lambda>n. Some (notifIdentifier n) \<noteq> notifId) (pending w1)\<rparr>))
      else (Ok (), w))"

subsection \<open>Plain objects as dictionaries\<close>

text \<open>
  \<^verbatim>\<open>loadDismissalCodes\<close> returns a plain object (\<^verbatim>\<open>JSON.parse\<close> of the stored text, or
  \<^verbatim>\<open>{}\<close>). Its own properties are the stored records; its prototype is
  \<^verbatim>\<open>Object.prototype\<close>, whose members (ECMAScript, with Annex B) are listed here.
  The association list stands for the set of own properties; the order of its pairs
  carries no meaning.
\<close>

definition objectPrototypeKeys :: "string list" where
  "objectPrototypeKeys =
     [''constructor'', ''__defineGetter__'', ''__defineSetter__'', ''hasOwnProperty'',
      ''__lookupGetter__'', ''__lookupSetter__'', ''isPrototypeOf'', ''propertyIsEnumerable'',
      ''toString'', ''valueOf'', ''__proto__'', ''toLocaleString'']"

text \<open>
  The value of \<^verbatim>\<open>codes[key]\<close>: an own record, or a member inherited from
  \<^verbatim>\<open>Object.prototype\<close> (a function, or for \<^verbatim>\<open>__proto__\<close> the prototype object itself;
  all of them truthy), or \<^verbatim>\<open>undefined\<close>.
\<close>

datatype property = Own code_record | Inherited | Undefined

definition getProperty :: "(string \<times> code_record) list \<Rightarrow> string \<Rightarrow> property" where
  "getProperty codes key =
     (case map_of codes key of
        Some r \<Rightarrow> Own r
      | None \<Rightarrow> if key \<in> set objectPrototypeKeys then Inherited else Undefined)"

text \<open>
  The assignment \<^verbatim>\<open>codes[key] = v\<close> creates or replaces an own property, except for
  the key \<^verbatim>\<open>__proto__\<close> when it is not an own property: then the inherited setter
  makes \<open>v\<close> the prototype of \<^verbatim>\<open>codes\<close> and the own properties, which are what
  \<^verbatim>\<open>JSON.stringify\<close> writes, stay as they are. \<^verbatim>\<open>delete codes[key]\<close> removes an own
  property only.
\<close>

definition setProperty ::
  "string \<Rightarrow> code_record \<Rightarrow> (string \<times> code_record) list \<Rightarrow> (string \<times> code_record) list" where
  "setProperty key v codes =
     (if key = ''__proto__'' \<and> map_of codes key = None then codes else AList.update key v codes)"

definition deleteProperty ::
  "string \<Rightarrow> (string \<times> code_record) list \<Rightarrow> (string \<times> code_record) list" where
  "deleteProperty key codes = AList.delete key codes"

text \<open>
  Reading the property \<^verbatim>\<open>attempts\<close>. \<open>inheritedAttempts\<close> is
  \<^verbatim>\<open>Object.prototype.attempts\<close>; a record without an own \<^verbatim>\<open>attempts\<close> and a member of
  \<^verbatim>\<open>Object.prototype\<close> without an own \<^verbatim>\<open>attempts\<close> inherit it. \<open>orZero x\<close> is
  \<^verbatim>\<open>x || 0\<close>.
\<close>

definition inheritedAttempts :: "world \<Rightarrow> int option" where
  "inheritedAttempts w = map_of (prototypeAttempts w) ''__proto__''"

definition recordAttempts :: "world \<Rightarrow> code_record \<Rightarrow> int option" where
  "recordAttempts w r = (case attempts r of Some a \<Rightarrow> Some a | None \<Rightarrow> inheritedAttempts w)"

definition memberAttempts :: "world \<Rightarrow> string \<Rightarrow> int option" where
  "memberAttempts w key =
     (case map_of (prototypeAttempts w) key of Some a \<Rightarrow> Some a | None \<Rightarrow> inheritedAttempts w)"

definition orZero :: "int option \<Rightarrow> int" where
  "orZero x = (case x of None \<Rightarrow> 0 | Some a \<Rightarrow> a)"

subsection \<open>AlarmStorage\<close>

definition saveAlarms :: "alarm_record list \<Rightarrow> world \<Rightarrow> unit result \<times> world" where
  "saveAlarms alarms w =
     (case extcall w of
        (True, w1) \<Rightarrow> (Threw, w1)
      | (False, w1) \<Rightarrow> (Ok (), emit (SetAlarms alarms) (w1\<lparr>alarmsItem := alarms\<rparr>)))"

definition loadAlarms :: "world \<Rightarrow> alarm_record list \<times> world" where
  "loadAlarms w =
     (case extcall w of (True, w1) \<Rightarrow> ([], w1) | (False, w1) \<Rightarrow> (alarmsItem w1, w1))"

definition loadDismissalCodes :: "world \<Rightarrow> (string \<times> code_record) list \<times> world" where
  "loadDismissalCodes w =
     (case extcall w of (True, w1) \<Rightarrow> ([], w1) | (False, w1) \<Rightarrow> (codesItem w1, w1))"

text \<open>\<^verbatim>\<open>AsyncStorage.setItem(DISMISSAL_CODES_STORAGE_KEY, JSON.stringify(codes))\<close>.\<close>

definition setItemCodes :: "(string \<times> code_record) list \<Rightarrow> world \<Rightarrow> unit result \<times> world" where
  "setItemCodes codes w =
     (case extcall w of
        (True, w1) \<Rightarrow> (Threw, w1)
      | (False, w1) \<Rightarrow> (Ok (), emit (SetCodes codes) (w1\<lparr>codesItem := codes\<rparr>)))"

text \<open>\<^verbatim>\<open>saveDismissalCode\<close>; \<open>now\<close> is \<^verbatim>\<open>Date.now()\<close>. A failed write is rethrown.\<close>

definition saveDismissalCode :: "string \<Rightarrow> code_record \<Rightarrow> int \<Rightarrow> world \<Rightarrow> unit result \<times> world" where
  "saveDismissalCode alarmId codeData now w =
     (case loadDismissalCodes w of
        (codes, w1) \<Rightarrow>
          setItemCodes
            (setProperty alarmId (codeData\<lparr>createdAt := Some now, attempts := Some 0\<rparr>) codes) w1)"

text \<open>\<^verbatim>\<open>removeDismissalCode\<close> logs a failed write and returns normally.\<close>

definition removeDismissalCode :: "string \<Rightarrow> world \<Rightarrow> world" where
  "removeDismissalCode alarmId w =
     (case loadDismissalCodes w of
        (codes, w1) \<Rightarrow> snd (setItemCodes (deleteProperty alarmId codes) w1))"

text \<open>
  \<^verbatim>\<open>incrementCodeAttempts\<close>. When \<^verbatim>\<open>codes[alarmId]\<close> is truthy,
  \<^verbatim>\<open>(codes[alarmId].attempts || 0) + 1\<close> is assigned to its \<^verbatim>\<open>attempts\<close>, the
  dictionary is written and the number is returned; when the write throws the result is
  0. For an own record the assignment changes the record that is written. For an
  inherited member it changes that member, an object of the process, and the dictionary
  is written as it was read. Without a truthy value the result is 0 and nothing is
  written. (Once \<^verbatim>\<open>Object.prototype.attempts\<close> is set, the key \<^verbatim>\<open>attempts\<close> is inherited
  too, as a number; assigning to a property of a number throws in the strict code of a
  module, the exception is caught, and the result is again 0 with nothing written.)
\<close>

definition incrementCodeAttempts :: "string \<Rightarrow> world \<Rightarrow> int \<times> world" where
  "incrementCodeAttempts alarmId w =
     (case loadDismissalCodes w of
        (codes, w1) \<Rightarrow>
          (case getProperty codes alarmId of
             Own r \<Rightarrow>
               (let n = orZero (recordAttempts w1 r) + 1 in
                case setItemCodes (AList.update alarmId (r\<lparr>attempts := Some n\<rparr>) codes) w1 of
                  (Threw, w2) \<Rightarrow> (0, w2)
                | (Ok u, w2) \<Rightarrow> (n, w2))
           | Inherited \<Rightarrow>
               (let n = orZero (memberAttempts w1 alarmId) + 1 in
                case setItemCodes codes
                       (w1\<lparr>prototypeAttempts := AList.update alarmId n (prototypeAttempts w1)\<rparr>) of
                  (Threw, w2) \<Rightarrow> (0, w2)
                | (Ok u, w2) \<Rightarrow> (n, w2))
           | Undefined \<Rightarrow> (0, w1)))"

definition getAlarm :: "string \<Rightarrow> world \<Rightarrow> alarm_record option \<times> world" where
  "getAlarm alarmId w =
     (case loadAlarms w of (alarms, w1) \<Rightarrow> (find (\<lambda>alarm. aId alarm = alarmId) alarms, w1))"

text \<open>
  \<^verbatim>\<open>addAlarm\<close>: \<open>tId\<close> is the \<^verbatim>\<open>Date.now()\<close> of the id, \<open>tCreated\<close> the
  \<^verbatim>\<open>new Date()\<close> of \<^verbatim>\<open>createdAt\<close>, \<open>now\<close> and \<open>nid\<close> are passed to \<^verbatim>\<open>scheduleAlarm\<close>.
\<close>

definition addAlarm ::
  "alarm_data \<Rightarrow> int \<Rightarrow> int \<Rightarrow> int \<Rightarrow> string \<Rightarrow> world \<Rightarrow> alarm_record result \<times> world" where
  "addAlarm alarm tId tCreated now nid w =
     (case loadAlarms w of
        (alarms, w1) \<Rightarrow>
          (let newAlarm =
                 \<lparr> aId = toString tId, time = dataTime alarm, label = dataLabel alarm,
                   frequency = dataFrequency alarm, duration = dataDuration alarm,
                   isActive = True, alarmCreatedAt = tCreated, notificationId = None \<rparr>
           in case scheduleAlarm newAlarm now nid w1 of
                (Threw, w2) \<Rightarrow> (Threw, w2)
              | (Ok notifId, w2) \<Rightarrow>
                  (let newAlarm' = newAlarm\<lparr>notificationId := Some notifId\<rparr> in
                   case saveAlarms (alarms @ [newAlarm']) w2 of
                     (Threw, w3) \<Rightarrow> (Threw, w3)
                   | (Ok u, w3) \<Rightarrow> (Ok newAlarm', w3))))"

definition deleteAlarm :: "string \<Rightarrow> world \<Rightarrow> unit result \<times> world" where
  "deleteAlarm alarmId w =
     (case loadAlarms w of
        (alarms, w1) \<Rightarrow>
          (case (case find (\<lambda>alarm. aId alarm = alarmId) alarms of
                   Some alarmToDelete \<Rightarrow>
                     (if truthy (notificationId alarmToDelete)
                      then cancelAlarm (notificationId alarmToDelete) w1 else (Ok (), w1))
                 | None \<Rightarrow> (Ok (), w1)) of
             (Threw, w2) \<Rightarrow> (Threw, w2)
           | (Ok u, w2) \<Rightarrow>
               saveAlarms (filter (\<lambda>alarm. aId alarm \<noteq> alarmId) alarms)
                 (removeDismissalCode alarmId w2)))"

definition updateAlarm :: "string \<Rightarrow> alarm_patch \<Rightarrow> world \<Rightarrow> unit result \<times> world" where
  "updateAlarm alarmId updates w =
     (case loadAlarms w of
        (alarms, w1) \<Rightarrow>
          saveAlarms
            (map (\<lambda>alarm. if aId alarm = alarmId then spreadUpdates alarm updates else alarm) alarms)
            w1)"

text \<open>
  \<^verbatim>\<open>alarms.find(...)\<close> returns the first matching element of the array itself, and
  \<^verbatim>\<open>toggleAlarm\<close> assigns to its fields before saving the array: the first match is
  replaced in place.
\<close>

fun assignFirst :: "('a \<Rightarrow> bool) \<Rightarrow> ('a \<Rightarrow> 'a) \<Rightarrow> 'a list \<Rightarrow> 'a list" where
  "assignFirst P f [] = []"
| "assignFirst P f (x # xs) = (if P x then f x # xs else x # assignFirst P f xs)"

definition toggleAlarm :: "string \<Rightarrow> int \<Rightarrow> string \<Rightarrow> world \<Rightarrow> unit result \<times> world" where
  "toggleAlarm alarmId now nid w =
     (case loadAlarms w of
        (alarms, w1) \<Rightarrow>
          (case find (\<lambda>alarm. aId alarm = alarmId) alarms of
             None \<Rightarrow> (Ok (), w1)
           | Some alarmToToggle \<Rightarrow>
               (let newActiveState = \<not> isActive alarmToToggle in
                if newActiveState then
                  (case scheduleAlarm (alarmToToggle\<lparr>isActive := True\<rparr>) now nid w1 of
                     (Threw, w2) \<Rightarrow> (Threw, w2)
                   | (Ok notifId, w2) \<Rightarrow>
                       saveAlarms
                         (assignFirst (\<lambda>alarm. aId alarm = alarmId)
                            (\<lambda>alarm. alarm\<lparr>notificationId := Some notifId,
                                             isActive := newActiveState\<rparr>) alarms) w2)
                else
                  (case (if truthy (notificationId alarmToToggle)
                         then cancelAlarm (notificationId alarmToToggle) w1 else (Ok (), w1)) of
                     (Threw, w2) \<Rightarrow> (Threw, w2)
                   | (Ok u, w2) \<Rightarrow>
                       saveAlarms
                         (assignFirst (\<lambda>alarm. aId alarm = alarmId)
                            (\<lambda>alarm. alarm\<lparr>notificationId := None,
                                             isActive := newActiveState\<rparr>) alarms) w2))))"

subsection \<open>NotificationService: the timing validator\<close>

text \<open>
  \<^verbatim>\<open>validateAlarmTiming\<close>; \<open>now\<close> is \<^verbatim>\<open>new Date()\<close>. The differences of minutes are
  integers and are compared with the constant 1.5.
\<close>

definition validateAlarmTiming :: "string \<Rightarrow> int \<Rightarrow> world \<Rightarrow> bool \<times> world" where
  "validateAlarmTiming alarmId now w =
     (case getAlarm alarmId w of
        (None, w1) \<Rightarrow> (False, w1)
      | (Some alarm, w1) \<Rightarrow>
          (if \<not> isActive alarm then (False, w1)
           else
             (let alarmTime = time alarm; tz = tzOffset w1 in
              if frequency alarm = ''once'' then (True, w1)
              else if frequency alarm = ''daily'' then
                (let nowMinutes = getHours tz now * 60 + getMinutes tz now;
                     alarmMinutes = getHours tz alarmTime * 60 + getMinutes tz alarmTime;
                     diff = \<bar>nowMinutes - alarmMinutes\<bar>
                 in (real_of_int diff \<le> 1.5, w1))
              else if frequency alarm = ''weekly'' then
                (let nowDay = getDay tz now;
                     alarmDay = getDay tz alarmTime;
                     nowMinutes = getHours tz now * 60 + getMinutes tz now;
                     alarmMinutes = getHours tz alarmTime * 60 + getMinutes tz alarmTime;
                     timeDiff = \<bar>nowMinutes - alarmMinutes\<bar>
                 in (nowDay = alarmDay \<and> real_of_int timeDiff \<le> 1.5, w1))
              else (False, w1))))"

subsection \<open>DismissAlarmScreen\<close>

text \<open>
  The state of the component: the route parameter \<^verbatim>\<open>alarmId\<close>, the React state
  (\<open>attemptsState\<close> is the state variable \<^verbatim>\<open>attempts\<close>), and what the screen holds of
  the device: \<open>audioPlayerRef\<close> says that \<^verbatim>\<open>audioPlayerRef.current\<close> holds a sound,
  \<open>vibrating\<close> that the repeating vibration started by \<^verbatim>\<open>startVibration\<close> has not been
  cancelled, \<open>timerRef\<close> that the interval of \<^verbatim>\<open>startTimer\<close> is set.
\<close>

record screen =
  alarmId :: string
  alarm :: "alarm_record option"
  dismissalCodeData :: "code_record option"
  userInput :: string
  timeRemaining :: int
  isPlaying :: bool
  attemptsState :: int
  audioPlayerRef :: bool
  vibrating :: bool
  timerRef :: bool

text \<open>
  \<^verbatim>\<open>stopAlarm\<close>: \<^verbatim>\<open>pauseAsync\<close> and \<^verbatim>\<open>unloadAsync\<close> may throw; the \<^verbatim>\<open>catch\<close> block
  then only sets \<^verbatim>\<open>isPlaying\<close>. The interval of the countdown is not touched.
\<close>

definition stopAlarm :: "screen \<Rightarrow> world \<Rightarrow> screen \<times> world" where
  "stopAlarm s w =
     (if audioPlayerRef s then
        (case extcall w of
           (True, w1) \<Rightarrow> (s\<lparr>isPlaying := False\<rparr>, w1)
         | (False, w1) \<Rightarrow>
             (case extcall w1 of
                (True, w2) \<Rightarrow> (s\<lparr>isPlaying := False\<rparr>, w2)
              | (False, w2) \<Rightarrow>
                  (s\<lparr>audioPlayerRef := False, vibrating := False, isPlaying := False\<rparr>, w2)))
      else (s\<lparr>vibrating := False, isPlaying := False\<rparr>, w))"

text \<open>
  \<^verbatim>\<open>handleTimeout\<close> stops the alarm and shows the dialog "Alarm Timeout" (the wording
  of a dialog is not part of the model). \<open>alarmTimeoutOK\<close> is the \<^verbatim>\<open>onPress\<close> handler
  of the dialog's button: it starts \<^verbatim>\<open>removeDismissalCode\<close> without awaiting it and
  navigates.
\<close>

definition handleTimeout :: "screen \<Rightarrow> world \<Rightarrow> screen \<times> world" where
  "handleTimeout s w =
     (case stopAlarm s w of (s1, w1) \<Rightarrow> (s1, emit (Alerted AlarmTimeout) w1))"

definition alarmTimeoutOK :: "screen \<Rightarrow> world \<Rightarrow> world" where
  "alarmTimeoutOK s w = removeDismissalCode (alarmId s) (emit (Navigated ''AlarmList'') w)"

text \<open>One run of the interval callback of \<^verbatim>\<open>startTimer\<close>.\<close>

definition timerTick :: "screen \<Rightarrow> world \<Rightarrow> screen \<times> world" where
  "timerTick s w =
     (if timeRemaining s \<le> 1 then
        (case handleTimeout s w of (s1, w1) \<Rightarrow> (s1\<lparr>timeRemaining := 0\<rparr>, w1))
      else (s\<lparr>timeRemaining := timeRemaining s - 1\<rparr>, w))"

text \<open>
  The block of \<^verbatim>\<open>handleSubmit\<close> under the comment "For one-time alarms, cancel
  notification and mark as inactive"; \<open>alarm s\<close> is the alarm that the screen loaded
  when it started. An exception of \<^verbatim>\<open>cancelAlarm\<close> or \<^verbatim>\<open>updateAlarm\<close> leaves
  \<^verbatim>\<open>handleSubmit\<close>.
\<close>

definition deactivateOnceAlarm :: "screen \<Rightarrow> world \<Rightarrow> unit result \<times> world" where
  "deactivateOnceAlarm s w =
     (case alarm s of
        None \<Rightarrow> (Ok (), w)
      | Some a \<Rightarrow>
          if frequency a = ''once'' then
            (case (if truthy (notificationId a) then cancelAlarm (notificationId a) w
                   else (Ok (), w)) of
               (Threw, w1) \<Rightarrow> (Threw, w1)
             | (Ok u, w1) \<Rightarrow>
                 updateAlarm (alarmId s)
                   \<lparr> patchTime = None, patchLabel = None, patchFrequency = None,
                     patchDuration = None, patchIsActive = Some False,
                     patchNotificationId = Some None \<rparr> w1)
          else (Ok (), w))"

text \<open>
  \<^verbatim>\<open>handleSubmit\<close>. The call of \<^verbatim>\<open>stopAlarm\<close> is not awaited; it touches the audio
  player and the vibration only, and it is run here before the steps that follow it.
  After \<^verbatim>\<open>removeDismissalCode\<close> comes the block \<open>deactivateOnceAlarm\<close>. Reading \<^verbatim>\<open>dismissalCodeData.code\<close> of \<^verbatim>\<open>null\<close> throws.
\<close>

definition handleSubmit :: "screen \<Rightarrow> world \<Rightarrow> unit result \<times> screen \<times> world" where
  "handleSubmit s w =
     (case incrementCodeAttempts (alarmId s) w of
        (newAttempts, w1) \<Rightarrow>
          (let s1 = s\<lparr>attemptsState := newAttempts\<rparr> in
           if newAttempts > 5 then (Ok (), s1, emit (Alerted MaximumAttemptsExceeded) w1)
           else
             (case dismissalCodeData s of
                None \<Rightarrow> (Threw, s1, w1)
              | Some codeData \<Rightarrow>
                  if toUpperCase (trim (userInput s)) = code codeData then
                    (case stopAlarm s1 w1 of
                       (s2, w2) \<Rightarrow>
                         (case deactivateOnceAlarm s (removeDismissalCode (alarmId s) w2) of
                            (Threw, w3) \<Rightarrow> (Threw, s2, w3)
                          | (Ok u, w3) \<Rightarrow> (Ok (), s2, emit (Alerted AlarmDismissed) w3)))
                  else
                    (let s2 = s1\<lparr>userInput := []\<rparr> in
                     if newAttempts \<ge> 5 then (Ok (), s2, emit (Alerted TooManyFailedAttempts) w1)
                     else (Ok (), s2, emit (Alerted (IncorrectCode (5 - newAttempts))) w1)))))"

text \<open>The user types \<open>input\<close> into the text field and presses the button.\<close>

definition submit :: "string \<Rightarrow> screen \<times> world \<Rightarrow> screen \<times> world" where
  "submit input sw = snd (handleSubmit ((fst sw)\<lparr>userInput := input\<rparr>) (snd sw))"

text \<open>
  The states of the specification's Dismissal Session, read off the program: the
  session has succeeded once the dialog "Alarm Dismissed" was shown, it has timed out once
  the dialog "Alarm Timeout" was shown, and it is ringing before that.
\<close>

datatype phase = Ringing | Success | TimedOut

definition sessionPhase :: "world \<Rightarrow> phase" where
  "sessionPhase w =
     (if Alerted AlarmDismissed \<in> set (log w) then Success
      else if Alerted AlarmTimeout \<in> set (log w) then TimedOut
      else Ringing)"

text \<open>
  The code record and the alarm that the store holds for an id (own properties of the
  stored dictionary, elements of the stored array), read without a platform call.
\<close>

definition storedCode :: "world \<Rightarrow> string \<Rightarrow> code_record option" where
  "storedCode w k = map_of (codesItem w) k"

definition storedAlarm :: "world \<Rightarrow> string \<Rightarrow> alarm_record option" where
  "storedAlarm w k = find (\<lambda>alarm. aId alarm = k) (alarmsItem w)"

text \<open>
  The invariant of the specification on the stored alarms: an alarm is active exactly
  when it has a schedule handle.
\<close>

definition consistent :: "alarm_record \<Rightarrow> bool" where
  "consistent a = (isActive a = (notificationId a \<noteq> None))"

definition handleInvariant :: "world \<Rightarrow> bool" where
  "handleInvariant w = list_all consistent (alarmsItem w)"

text \<open>
  The patches under which \<^verbatim>\<open>updateAlarm\<close> cannot break the invariant: those that set
  neither \<^verbatim>\<open>isActive\<close> nor \<^verbatim>\<open>notificationId\<close>, and those that set both in agreement.
\<close>

definition keepsHandle :: "alarm_patch \<Rightarrow> bool" where
  "keepsHandle u =
     (case (patchIsActive u, patchNotificationId u) of
        (None, None) \<Rightarrow> True
      | (Some b, Some h) \<Rightarrow> b = (h \<noteq> None)
      | _ \<Rightarrow> False)"

subsection \<open>Example states\<close>

text \<open>
  Three stored alarms, all active and scheduled, in a zone at UTC: a one-time alarm at
  the epoch, a daily and a weekly alarm at 07:00. The one-time alarm has a live code
  record, and \<open>ringingScreen\<close> is its dismissal screen while it rings.
\<close>

definition onceAlarm :: alarm_record where
  "onceAlarm =
     \<lparr> aId = ''1'', time = 0, label = ''wake'', frequency = ''once'', duration = 5,
       isActive = True, alarmCreatedAt = 0, notificationId = Some ''n1'' \<rparr>"

definition dailyAlarm :: alarm_record where
  "dailyAlarm =
     \<lparr> aId = ''2'', time = 25200000, label = ''work'', frequency = ''daily'', duration = 5,
       isActive = True, alarmCreatedAt = 0, notificationId = Some ''n2'' \<rparr>"

definition weeklyAlarm :: alarm_record where
  "weeklyAlarm =
     \<lparr> aId = ''3'', time = 25200000, label = ''gym'', frequency = ''weekly'', duration = 5,
       isActive = True, alarmCreatedAt = 0, notificationId = Some ''n3'' \<rparr>"

definition liveCode :: code_record where
  "liveCode =
     \<lparr> code = ''AB12CD34'', timestamp = 1000, expiresAt = 601000,
       createdAt = Some 1000, attempts = Some 0 \<rparr>"

definition exampleWorld :: world where
  "exampleWorld =
     \<lparr> alarmsItem = [onceAlarm, dailyAlarm, weeklyAlarm],
       codesItem = [(''1'', liveCode)],
       pending =
         [\<lparr>notifIdentifier = ''n1'', dataAlarmId = ''1'', notifTrigger = DateTrigger 0\<rparr>,
          \<lparr>notifIdentifier = ''n2'', dataAlarmId = ''2'', notifTrigger = DailyTrigger 7 0\<rparr>,
          \<lparr>notifIdentifier = ''n3'', dataAlarmId = ''3'', notifTrigger = WeeklyTrigger 5 7 0\<rparr>],
       faults = [], log = [], android = True, tzOffset = 0, prototypeAttempts = [] \<rparr>"

definition ringingScreen :: screen where
  "ringingScreen =
     \<lparr> alarmId = ''1'', alarm = Some onceAlarm, dismissalCodeData = Some liveCode,
       userInput = [], timeRemaining = 300, isPlaying = True, attemptsState = 0,
       audioPlayerRef = True, vibrating = True, timerRef = True \<rparr>"

definition weeklyScreen :: screen where
  "weeklyScreen =
     \<lparr> alarmId = ''3'', alarm = Some weeklyAlarm, dismissalCodeData = Some liveCode,
       userInput = [], timeRemaining = 1, isPlaying = True, attemptsState = 0,
       audioPlayerRef = True, vibrating = True, timerRef = True \<rparr>"

text \<open>
  Scenario C of the specification: five wrong submissions in a row on the ringing screen,
  and then the submission of the correct code.
\<close>

definition afterFiveWrong :: "screen \<times> world" where
  "afterFiveWrong =
     submit ''X'' (submit ''X'' (submit ''X'' (submit ''X'' (submit ''X''
       (ringingScreen, exampleWorld)))))"

definition afterSixth :: "screen \<times> world" where
  "afterSixth = submit ''AB12CD34'' afterFiveWrong"

text \<open>The one-time alarm of the example after it has been switched off.\<close>

definition pausedWorld :: world where
  "pausedWorld =
     \<lparr> alarmsItem = [onceAlarm\<lparr>notificationId := None, isActive := False\<rparr>, dailyAlarm,
                     weeklyAlarm],
       codesItem = [],
       pending =
         [\<lparr>notifIdentifier = ''n2'', dataAlarmId = ''2'', notifTrigger = DailyTrigger 7 0\<rparr>,
          \<lparr>notifIdentifier = ''n3'', dataAlarmId = ''3'', notifTrigger = WeeklyTrigger 5 7 0\<rparr>],
       faults = [], log = [], android = True, tzOffset = 0, prototypeAttempts = [] \<rparr>"

section \<open>Properties\<close>

subsection \<open>Code generator\<close>

lemma characters_length: "length characters = 36"
  by (simp add: characters_def)

lemma characters_codeChar: "list_all codeChar characters"
  by (simp add: characters_def codeChar_def)

lemma pickChar_shape:
  "\<exists>c. pickChar entropy i r = [c] \<and> codeChar c"
proof -
  obtain k where k: "(case finalIndex entropy i r of None \<Rightarrow> 0 | Some k \<Rightarrow> k) = k" and "k < 36"
    by (auto simp: finalIndex_def characters_length Let_def split: option.splits)
  have "codeChar (characters ! k)"
    using characters_codeChar \<open>k < 36\<close> by (simp add: list_all_length characters_length)
  then show ?thesis
    using k \<open>k < 36\<close> by (simp add: pickChar_def charAt_def characters_length)
qed

lemma codeLoop_shape:
  "i \<le> 8 \<Longrightarrow> list_all codeChar acc \<Longrightarrow>
   length (codeLoop entropy rnd i acc) = length acc + (8 - i) \<and>
   list_all codeChar (codeLoop entropy rnd i acc)"
proof (induction entropy rnd i acc rule: codeLoop.induct)
  case (1 entropy rnd i acc)
  show ?case
  proof (cases "i < 8")
    case True
    obtain c where c: "pickChar entropy i (rnd i) = [c]" "codeChar c"
      using pickChar_shape by blast
    have "length (codeLoop entropy rnd (Suc i) (acc @ [c])) = length (acc @ [c]) + (8 - Suc i) \<and>
          list_all codeChar (codeLoop entropy rnd (Suc i) (acc @ [c]))"
      using "1.IH" [OF True] True "1.prems" c by simp
    moreover have "codeLoop entropy rnd i acc = codeLoop entropy rnd (Suc i) (acc @ [c])"
      using True c by (subst codeLoop.simps) simp
    ultimately show ?thesis
      using True by simp
  next
    case False
    then have "codeLoop entropy rnd i acc = acc"
      by (subst codeLoop.simps) simp
    then show ?thesis
      using "1.prems" False by simp
  qed
qed

lemma generateSecureCode_valid: "isValidCode (generateSecureCode t0 random1 random2 rnd)"
  using codeLoop_shape [of 0 "[]"] by (simp add: generateSecureCode_def isValidCode_def Let_def)

text \<open>
  C8, as the claim states it, fails: \<^verbatim>\<open>timestamp\<close> and \<^verbatim>\<open>expiresAt\<close> come from two
  separate reads of the clock. When the clock moves from 1000 to 1001 between them,
  \<^verbatim>\<open>expiresAt\<close> is not \<^verbatim>\<open>timestamp\<close> plus ten minutes.
\<close>

theorem generateDismissalCode_counterexample:
  "expiresAt (generateDismissalCode 1000 ''0.a'' ''0.b''
       (nth [0.5, 0.1, 0.9, 0.3, 0, 0.99, 0.25, 0.75]) 1000 1001)
     \<noteq> timestamp (generateDismissalCode 1000 ''0.a'' ''0.b''
           (nth [0.5, 0.1, 0.9, 0.3, 0, 0.99, 0.25, 0.75]) 1000 1001)
         + 10 * 60 * 1000"
  by (simp add: generateDismissalCode_def)

text \<open>
  C8, amended: every value returned by \<^verbatim>\<open>generateDismissalCode\<close> has a code that
  \<^verbatim>\<open>isValidCode\<close> accepts (eight characters of \<^verbatim>\<open>[A-Z0-9]\<close>), and its \<^verbatim>\<open>expiresAt\<close>
  is ten minutes after the clock value read for it: the issue timestamp plus ten minutes
  plus the time that passed between the two reads of the clock (zero when both reads
  return the same millisecond).
\<close>

theorem generateDismissalCode_contract:
  "isValidCode (code (generateDismissalCode t0 random1 random2 rnd tIssued tExpiry)) \<and>
   expiresAt (generateDismissalCode t0 random1 random2 rnd tIssued tExpiry) =
     timestamp (generateDismissalCode t0 random1 random2 rnd tIssued tExpiry)
       + 10 * 60 * 1000 + (tExpiry - tIssued)"
  by (simp add: generateDismissalCode_def generateSecureCode_valid)

text \<open>C8, amended, at a concrete input: both reads of the clock return 1000.\<close>

theorem generateDismissalCode_contract_witness:
  "isValidCode (code (generateDismissalCode 1000 ''0.a'' ''0.b''
       (nth [0.5, 0.1, 0.9, 0.3, 0, 0.99, 0.25, 0.75]) 1000 1000)) \<and>
   expiresAt (generateDismissalCode 1000 ''0.a'' ''0.b''
       (nth [0.5, 0.1, 0.9, 0.3, 0, 0.99, 0.25, 0.75]) 1000 1000) = 601000"
  using generateDismissalCode_contract
    [of 1000 "''0.a''" "''0.b''" "nth [0.5, 0.1, 0.9, 0.3, 0, 0.99, 0.25, 0.75]" 1000 1000]
  by (simp add: generateDismissalCode_def)

subsection \<open>The platform calls and what they leave alone\<close>

lemma extcall_frame:
  "extcall w = (f, w') \<Longrightarrow>
     alarmsItem w' = alarmsItem w \<and> codesItem w' = codesItem w \<and> pending w' = pending w \<and>
     log w' = log w \<and> android w' = android w \<and> tzOffset w' = tzOffset w \<and>
     prototypeAttempts w' = prototypeAttempts w"
  by (auto simp: extcall_def split: list.splits)

lemma extcall_no_faults: "faults w = [] \<Longrightarrow> extcall w = (False, w)"
  by (simp add: extcall_def)

lemma loadDismissalCodes_frame:
  "loadDismissalCodes w = (codes, w1) \<Longrightarrow>
     alarmsItem w1 = alarmsItem w \<and> codesItem w1 = codesItem w \<and> pending w1 = pending w \<and>
     log w1 = log w \<and> prototypeAttempts w1 = prototypeAttempts w \<and>
     (codes = [] \<or> codes = codesItem w)"
  by (auto simp: loadDismissalCodes_def split: prod.splits bool.splits dest: extcall_frame)

subsection \<open>Dismissal code records\<close>

lemma exampleWorld_unfolded:
  "codesItem exampleWorld = [(''1'', liveCode)]" "faults exampleWorld = []"
  "log exampleWorld = []" "prototypeAttempts exampleWorld = []"
  by (simp_all add: exampleWorld_def)

lemma exampleWorld_load: "loadDismissalCodes exampleWorld = ([(''1'', liveCode)], exampleWorld)"
  by (simp add: loadDismissalCodes_def extcall_def exampleWorld_unfolded)

lemma exampleWorld_setItem:
  "setItemCodes codes exampleWorld =
     (Ok (), emit (SetCodes codes) (exampleWorld\<lparr>codesItem := codes\<rparr>))"
  by (simp add: setItemCodes_def extcall_def exampleWorld_unfolded)

text \<open>
  C9, as the claim states it, fails for the id \<^verbatim>\<open>__proto__\<close>: the assignment
  \<^verbatim>\<open>codes['__proto__'] = {...}\<close> sets the prototype of the dictionary and adds no own
  property, so the save returns normally and no record is stored for that id.
\<close>

theorem saveDismissalCode_proto_counterexample:
  "fst (saveDismissalCode ''__proto__'' liveCode 2000 exampleWorld) = Ok () \<and>
   storedCode (snd (saveDismissalCode ''__proto__'' liveCode 2000 exampleWorld)) ''__proto__'' = None"
  by (simp add: saveDismissalCode_def exampleWorld_load exampleWorld_setItem setProperty_def
      storedCode_def emit_def)

text \<open>
  C9, amended: for every \<open>alarmId\<close> other than \<^verbatim>\<open>__proto__\<close> and every \<open>codeData\<close>,
  whenever \<^verbatim>\<open>saveDismissalCode(alarmId, codeData)\<close> returns normally, the record stored
  for \<open>alarmId\<close> is \<open>codeData\<close> with \<^verbatim>\<open>createdAt\<close> set and \<^verbatim>\<open>attempts\<close> equal to 0,
  whatever \<^verbatim>\<open>attempts\<close> the argument carried.
\<close>

theorem saveDismissalCode_resets_attempts:
  assumes "saveDismissalCode k codeData now w = (Ok (), w')" and "k \<noteq> ''__proto__''"
  shows "storedCode w' k = Some (codeData\<lparr>createdAt := Some now, attempts := Some 0\<rparr>) \<and>
         (\<exists>r. storedCode w' k = Some r \<and> attempts r = Some 0)"
  using assms
  by (auto simp: saveDismissalCode_def setItemCodes_def setProperty_def storedCode_def emit_def
      update_conv' split: prod.splits bool.splits)

text \<open>
  C9, amended, at a concrete input: a record that carries four attempts is saved over the
  live record of alarm 1; the save returns normally and the stored attempts are 0.
\<close>

theorem saveDismissalCode_resets_attempts_witness:
  "saveDismissalCode ''1'' (liveCode\<lparr>attempts := Some 4\<rparr>) 2000 exampleWorld =
     (Ok (), snd (saveDismissalCode ''1'' (liveCode\<lparr>attempts := Some 4\<rparr>) 2000 exampleWorld)) \<and>
   ''1'' \<noteq> ''__proto__'' \<and>
   storedCode (snd (saveDismissalCode ''1'' (liveCode\<lparr>attempts := Some 4\<rparr>) 2000 exampleWorld)) ''1''
     = Some (liveCode\<lparr>createdAt := Some 2000, attempts := Some 0\<rparr>)"
proof -
  have ok: "saveDismissalCode ''1'' (liveCode\<lparr>attempts := Some 4\<rparr>) 2000 exampleWorld =
     (Ok (), snd (saveDismissalCode ''1'' (liveCode\<lparr>attempts := Some 4\<rparr>) 2000 exampleWorld))"
    by (simp add: saveDismissalCode_def exampleWorld_load exampleWorld_setItem)
  have k: "''1'' \<noteq> ''__proto__''"
    by simp
  from saveDismissalCode_resets_attempts [OF ok k] ok k show ?thesis by simp
qed

text \<open>
  C10, as the claim states it, fails for an id that names a member of
  \<^verbatim>\<open>Object.prototype\<close>: no record is stored for \<^verbatim>\<open>constructor\<close>, but
  \<^verbatim>\<open>codes['constructor']\<close> is the inherited function, which is truthy; the code counts
  an attempt on it, writes the dictionary and returns 1.
\<close>

theorem incrementCodeAttempts_inherited_counterexample:
  "storedCode exampleWorld ''constructor'' = None \<and>
   fst (incrementCodeAttempts ''constructor'' exampleWorld) = 1 \<and>
   log (snd (incrementCodeAttempts ''constructor'' exampleWorld)) = [SetCodes [(''1'', liveCode)]]"
  by (simp add: incrementCodeAttempts_def exampleWorld_load setItemCodes_def extcall_def
      getProperty_def objectPrototypeKeys_def memberAttempts_def inheritedAttempts_def orZero_def
      storedCode_def emit_def exampleWorld_unfolded)

text \<open>
  C10, amended: for every \<open>alarmId\<close> that has no stored code record and is not the name
  of a member of \<^verbatim>\<open>Object.prototype\<close> (every id the application creates is a string of
  digits), \<^verbatim>\<open>incrementCodeAttempts(alarmId)\<close> returns 0 and writes nothing: the stored
  code map is the same afterwards, whether or not the read of the store throws.
\<close>

theorem incrementCodeAttempts_no_record:
  assumes "storedCode w k = None" and "k \<notin> set objectPrototypeKeys"
  shows "fst (incrementCodeAttempts k w) = 0 \<and>
         codesItem (snd (incrementCodeAttempts k w)) = codesItem w \<and>
         log (snd (incrementCodeAttempts k w)) = log w \<and>
         prototypeAttempts (snd (incrementCodeAttempts k w)) = prototypeAttempts w"
proof -
  obtain codes w1 where l: "loadDismissalCodes w = (codes, w1)"
    by (cases "loadDismissalCodes w")
  from loadDismissalCodes_frame [OF l] assms(1) have "map_of codes k = None"
    by (auto simp: storedCode_def)
  with assms(2) have "getProperty codes k = Undefined"
    by (simp add: getProperty_def)
  with l loadDismissalCodes_frame [OF l] show ?thesis
    by (simp add: incrementCodeAttempts_def)
qed

text \<open>
  C10, amended, at a concrete input: alarm 2 has no code record; the call returns 0 and
  the record of alarm 1 stays as it was.
\<close>

theorem incrementCodeAttempts_no_record_witness:
  "storedCode exampleWorld ''2'' = None \<and> ''2'' \<notin> set objectPrototypeKeys \<and>
   fst (incrementCodeAttempts ''2'' exampleWorld) = 0 \<and>
   codesItem (snd (incrementCodeAttempts ''2'' exampleWorld)) = [(''1'', liveCode)]"
proof -
  have h: "storedCode exampleWorld ''2'' = None"
    by (simp add: storedCode_def exampleWorld_def)
  have k: "''2'' \<notin> set objectPrototypeKeys"
    by (simp add: objectPrototypeKeys_def)
  from incrementCodeAttempts_no_record [OF h k] h k show ?thesis
    by (simp add: exampleWorld_def)
qed

subsection \<open>Timing validator\<close>

lemma loadAlarms_frame:
  "loadAlarms w = (alarms, w1) \<Longrightarrow>
     alarmsItem w1 = alarmsItem w \<and> codesItem w1 = codesItem w \<and> pending w1 = pending w \<and>
     log w1 = log w \<and> tzOffset w1 = tzOffset w \<and> android w1 = android w \<and>
     (alarms = [] \<or> alarms = alarmsItem w)"
  by (auto simp: loadAlarms_def split: prod.splits bool.splits dest: extcall_frame)

lemma getAlarm_read:
  assumes "\<not> fst (extcall w)"
  shows "\<exists>w1. getAlarm k w = (storedAlarm w k, w1) \<and> tzOffset w1 = tzOffset w"
proof -
  obtain w1 where e: "extcall w = (False, w1)"
    using assms by (cases "extcall w") auto
  from extcall_frame [OF e] e show ?thesis
    by (simp add: getAlarm_def loadAlarms_def storedAlarm_def)
qed

lemma minutes_tolerance: "(real_of_int d \<le> 1.5) = (d \<le> 1)"
  by linarith

text \<open>
  C2, as the claim states it, fails: the one-time alarm of the example is due at the
  epoch; an hour later, far outside any tolerance of at most two minutes, the validator
  still answers that it is due.
\<close>

theorem validateAlarmTiming_once_counterexample:
  "fst (validateAlarmTiming ''1'' 3600000 exampleWorld) \<and>
   \<not> \<bar>3600000 - time onceAlarm\<bar> \<le> 2 * 60 * 1000"
  by (simp add: validateAlarmTiming_def getAlarm_def loadAlarms_def extcall_def exampleWorld_def
      onceAlarm_def dailyAlarm_def weeklyAlarm_def)

text \<open>
  C2, amended: for an alarm that is stored, active and of frequency \<^verbatim>\<open>once\<close>, and when
  the read of the store does not throw, \<^verbatim>\<open>validateAlarmTiming\<close> returns true at every
  time \<open>now\<close>: the code trusts the platform's scheduling and compares no times.
\<close>

theorem validateAlarmTiming_once:
  assumes "storedAlarm w k = Some a" and "isActive a" and "frequency a = ''once''"
    and "\<not> fst (extcall w)"
  shows "fst (validateAlarmTiming k now w)"
proof -
  obtain w1 where "getAlarm k w = (Some a, w1)"
    using getAlarm_read [OF assms(4), of k] assms(1) by auto
  then show ?thesis
    using assms(2,3) by (simp add: validateAlarmTiming_def)
qed

text \<open>C2, amended, at a concrete input: the one-time alarm of the example, an hour late.\<close>

theorem validateAlarmTiming_once_witness:
  "storedAlarm exampleWorld ''1'' = Some onceAlarm \<and> isActive onceAlarm \<and>
   frequency onceAlarm = ''once'' \<and> \<not> fst (extcall exampleWorld) \<and>
   fst (validateAlarmTiming ''1'' 3600000 exampleWorld)"
proof -
  have h1: "storedAlarm exampleWorld ''1'' = Some onceAlarm"
    by (simp add: storedAlarm_def exampleWorld_def onceAlarm_def)
  have h2: "isActive onceAlarm" and h3: "frequency onceAlarm = ''once''"
    by (simp_all add: onceAlarm_def)
  have h4: "\<not> fst (extcall exampleWorld)"
    by (simp add: extcall_def exampleWorld_def)
  from validateAlarmTiming_once [OF h1 h2 h3 h4] h1 h2 h3 h4 show ?thesis by simp
qed

lemma validateAlarmTiming_daily:
  assumes "storedAlarm w k = Some a" and "isActive a" and "frequency a = ''daily''"
    and "\<not> fst (extcall w)"
  shows "fst (validateAlarmTiming k now w) =
     (\<bar>(getHours (tzOffset w) now * 60 + getMinutes (tzOffset w) now) -
       (getHours (tzOffset w) (time a) * 60 + getMinutes (tzOffset w) (time a))\<bar> \<le> 1)"
proof -
  obtain w1 where "getAlarm k w = (Some a, w1)" and "tzOffset w1 = tzOffset w"
    using getAlarm_read [OF assms(4), of k] assms(1) by auto
  then have "fst (validateAlarmTiming k now w) =
      (real_of_int \<bar>(getHours (tzOffset w) now * 60 + getMinutes (tzOffset w) now) -
       (getHours (tzOffset w) (time a) * 60 + getMinutes (tzOffset w) (time a))\<bar> \<le> 1.5)"
    using assms(2,3) by (simp add: validateAlarmTiming_def Let_def)
  then show ?thesis
    by (simp only: minutes_tolerance)
qed

lemma dailyAlarm_stored:
  "storedAlarm exampleWorld ''2'' = Some dailyAlarm" "isActive dailyAlarm"
  "frequency dailyAlarm = ''daily''" "\<not> fst (extcall exampleWorld)"
  "getHours (tzOffset exampleWorld) (time dailyAlarm) = 7"
  "getMinutes (tzOffset exampleWorld) (time dailyAlarm) = 0"
  by (simp_all add: storedAlarm_def exampleWorld_def onceAlarm_def dailyAlarm_def extcall_def
      getHours_def getMinutes_def)

lemma clock_0658:
  "getHours (tzOffset exampleWorld) (6 * 3600000 + 58 * 60000) = 6"
  "getMinutes (tzOffset exampleWorld) (6 * 3600000 + 58 * 60000) = 58"
  by (simp_all add: getHours_def getMinutes_def exampleWorld_def)

lemma clock_0659:
  "getHours (tzOffset exampleWorld) (6 * 3600000 + 59 * 60000) = 6"
  "getMinutes (tzOffset exampleWorld) (6 * 3600000 + 59 * 60000) = 59"
  by (simp_all add: getHours_def getMinutes_def exampleWorld_def)

text \<open>
  C5, as the claim states it, fails: for the daily alarm at 07:00 the validator at 06:58
  of the same day answers that the alarm is not due. The difference is two minutes and
  the code's tolerance is 1.5 minutes.
\<close>

theorem validateAlarmTiming_daily_counterexample:
  "getHours (tzOffset exampleWorld) (time dailyAlarm) = 7 \<and>
   getMinutes (tzOffset exampleWorld) (time dailyAlarm) = 0 \<and>
   getHours (tzOffset exampleWorld) (6 * 3600000 + 58 * 60000) = 6 \<and>
   getMinutes (tzOffset exampleWorld) (6 * 3600000 + 58 * 60000) = 58 \<and>
   \<not> fst (validateAlarmTiming ''2'' (6 * 3600000 + 58 * 60000) exampleWorld)"
  using validateAlarmTiming_daily [OF dailyAlarm_stored(1-4), of "6 * 3600000 + 58 * 60000"]
  by (simp only: dailyAlarm_stored clock_0658) simp

text \<open>
  C5, amended: for a stored, active \<^verbatim>\<open>daily\<close> alarm whose time of day is 07:00, the
  validator evaluated at 06:59 returns due, and evaluated at 06:58 or at 06:55 returns
  not due.
\<close>

theorem validateAlarmTiming_daily_scenario:
  assumes "storedAlarm w k = Some a" and "isActive a" and "frequency a = ''daily''"
    and "\<not> fst (extcall w)"
    and "getHours (tzOffset w) (time a) = 7" and "getMinutes (tzOffset w) (time a) = 0"
    and "getHours (tzOffset w) now = 6"
  shows "(getMinutes (tzOffset w) now = 59 \<longrightarrow> fst (validateAlarmTiming k now w)) \<and>
         (getMinutes (tzOffset w) now = 58 \<longrightarrow> \<not> fst (validateAlarmTiming k now w)) \<and>
         (getMinutes (tzOffset w) now = 55 \<longrightarrow> \<not> fst (validateAlarmTiming k now w))"
  using validateAlarmTiming_daily [OF assms(1-4), of now] assms(5-7) by simp

text \<open>C5, amended, at a concrete input: the daily alarm of the example at 06:59.\<close>

theorem validateAlarmTiming_daily_scenario_witness:
  "storedAlarm exampleWorld ''2'' = Some dailyAlarm \<and> isActive dailyAlarm \<and>
   frequency dailyAlarm = ''daily'' \<and> \<not> fst (extcall exampleWorld) \<and>
   getHours (tzOffset exampleWorld) (time dailyAlarm) = 7 \<and>
   getMinutes (tzOffset exampleWorld) (time dailyAlarm) = 0 \<and>
   getHours (tzOffset exampleWorld) (6 * 3600000 + 59 * 60000) = 6 \<and>
   getMinutes (tzOffset exampleWorld) (6 * 3600000 + 59 * 60000) = 59 \<and>
   fst (validateAlarmTiming ''2'' (6 * 3600000 + 59 * 60000) exampleWorld)"
  using validateAlarmTiming_daily_scenario [OF dailyAlarm_stored clock_0659(1)]
    dailyAlarm_stored clock_0659
  by simp

subsection \<open>Scheduler\<close>

text \<open>
  C6 on the code: a one-time alarm whose \<^verbatim>\<open>time\<close> is the epoch is scheduled two days
  later (as happens when an old one-time alarm is toggled on again). The date is moved
  forward by one day only, so the trigger is one day in the past.
\<close>

theorem scheduleAlarm_once_stale:
  "alarmTrigger 0 onceAlarm (2 * 86400000) = DateTrigger 86400000 \<and>
   fst (scheduleAlarm onceAlarm (2 * 86400000) ''n9'' exampleWorld) = Ok ''n9'' \<and>
   pending (snd (scheduleAlarm onceAlarm (2 * 86400000) ''n9'' exampleWorld)) =
     pending exampleWorld @
       [\<lparr>notifIdentifier = ''n9'', dataAlarmId = ''1'', notifTrigger = DateTrigger 86400000\<rparr>] \<and>
   (86400000 :: int) < 2 * 86400000"
  by (simp add: alarmTrigger_def scheduleAlarm_def setupNotificationChannels_def extcall_def
      setDatePlusOne_def exampleWorld_def onceAlarm_def)

text \<open>
  What does hold for one-time alarms: a future time is scheduled as it is, a past time
  is moved by one day, and the result is in the future when the time is less than a day
  old.
\<close>

lemma alarmTrigger_once:
  assumes "frequency a = ''once''"
  shows "time a > now \<Longrightarrow> alarmTrigger tz a now = DateTrigger (time a)"
    and "time a \<le> now \<Longrightarrow> alarmTrigger tz a now = DateTrigger (time a + 86400000)"
    and "time a \<le> now \<Longrightarrow> now < time a + 86400000 \<Longrightarrow>
           \<exists>t. alarmTrigger tz a now = DateTrigger t \<and> now < t"
  using assms by (simp_all add: alarmTrigger_def setDatePlusOne_def)

subsection \<open>The stored alarms and their schedule handles\<close>

lemma saveAlarms_frame:
  "saveAlarms alarms w = (r, w') \<Longrightarrow>
     (r = Ok () \<and> alarmsItem w' = alarms \<or> r = Threw \<and> alarmsItem w' = alarmsItem w) \<and>
     codesItem w' = codesItem w \<and> pending w' = pending w"
  by (auto simp: saveAlarms_def emit_def split: prod.splits bool.splits dest: extcall_frame)

lemma setupNotificationChannels_frame:
  "setupNotificationChannels w = (r, w') \<Longrightarrow>
     alarmsItem w' = alarmsItem w \<and> codesItem w' = codesItem w \<and> log w' = log w \<and>
     pending w' = pending w \<and> tzOffset w' = tzOffset w"
  by (auto simp: setupNotificationChannels_def split: prod.splits bool.splits if_splits
      dest: extcall_frame)

lemma scheduleAlarm_frame:
  assumes "scheduleAlarm a now nid w = (r, w')"
  shows "alarmsItem w' = alarmsItem w \<and> codesItem w' = codesItem w \<and> log w' = log w"
proof -
  obtain r1 w1 where s: "setupNotificationChannels w = (r1, w1)"
    by (cases "setupNotificationChannels w")
  obtain f w2 where e: "extcall w1 = (f, w2)"
    by (cases "extcall w1")
  from assms s e setupNotificationChannels_frame [OF s] extcall_frame [OF e] show ?thesis
    by (cases r1; cases f) (auto simp: scheduleAlarm_def Let_def)
qed

lemma cancelAlarm_frame:
  "cancelAlarm h w = (r, w') \<Longrightarrow>
     alarmsItem w' = alarmsItem w \<and> codesItem w' = codesItem w \<and> log w' = log w"
  by (auto simp: cancelAlarm_def split: prod.splits bool.splits if_splits dest: extcall_frame)

lemma setItemCodes_frame:
  "setItemCodes codes w = (r, w') \<Longrightarrow> alarmsItem w' = alarmsItem w \<and> pending w' = pending w"
  by (auto simp: setItemCodes_def emit_def split: prod.splits bool.splits dest: extcall_frame)

lemma removeDismissalCode_frame:
  "alarmsItem (removeDismissalCode k w) = alarmsItem w \<and>
   pending (removeDismissalCode k w) = pending w"
proof -
  obtain codes w1 where l: "loadDismissalCodes w = (codes, w1)"
    by (cases "loadDismissalCodes w")
  obtain r w2 where s: "setItemCodes (deleteProperty k codes) w1 = (r, w2)"
    by (cases "setItemCodes (deleteProperty k codes) w1")
  from loadDismissalCodes_frame [OF l] setItemCodes_frame [OF s] l s show ?thesis
    by (simp add: removeDismissalCode_def)
qed

lemma list_all_assignFirst:
  "list_all Q xs \<Longrightarrow> (\<And>x. Q (f x)) \<Longrightarrow> list_all Q (assignFirst P f xs)"
  by (induction xs) auto

lemma find_assignFirst:
  "find P xs = Some a \<Longrightarrow> P (f a) \<Longrightarrow> find P (assignFirst P f xs) = Some (f a)"
  by (induction xs) (auto split: if_splits)

lemma toggleAlarm_invariant:
  assumes "handleInvariant w"
  shows "handleInvariant (snd (toggleAlarm k now nid w))"
proof -
  obtain alarms w1 where l: "loadAlarms w = (alarms, w1)"
    by (cases "loadAlarms w")
  note lf = loadAlarms_frame [OF l]
  have al: "list_all consistent alarms"
    using lf assms by (auto simp: handleInvariant_def)
  have w1: "list_all consistent (alarmsItem w1)"
    using lf assms by (simp add: handleInvariant_def)
  show ?thesis
  proof (cases "find (\<lambda>alarm. aId alarm = k) alarms")
    case None
    with l w1 show ?thesis
      by (simp add: toggleAlarm_def handleInvariant_def)
  next
    case (Some a)
    show ?thesis
    proof (cases "isActive a")
      case False
      obtain r w2 where sc: "scheduleAlarm (a\<lparr>isActive := True\<rparr>) now nid w1 = (r, w2)"
        by (cases "scheduleAlarm (a\<lparr>isActive := True\<rparr>) now nid w1")
      note sf = scheduleAlarm_frame [OF sc]
      show ?thesis
      proof (cases r)
        case Threw
        with l Some False sc sf w1 show ?thesis
          by (simp add: toggleAlarm_def handleInvariant_def)
      next
        case (Ok h)
        let ?new = "assignFirst (\<lambda>alarm. aId alarm = k)
            (\<lambda>alarm. alarm\<lparr>notificationId := Some h, isActive := True\<rparr>) alarms"
        obtain r3 w3 where sv: "saveAlarms ?new w2 = (r3, w3)"
          by (cases "saveAlarms ?new w2")
        have "list_all consistent ?new"
          using al by (rule list_all_assignFirst) (simp add: consistent_def)
        with saveAlarms_frame [OF sv] sf w1 have "list_all consistent (alarmsItem w3)"
          by auto
        with l Some False sc Ok sv show ?thesis
          by (simp add: toggleAlarm_def handleInvariant_def)
      qed
    next
      case True
      let ?c = "if truthy (notificationId a) then cancelAlarm (notificationId a) w1 else (Ok (), w1)"
      obtain r w2 where ca: "?c = (r, w2)"
        by (cases ?c)
      have cf: "alarmsItem w2 = alarmsItem w1"
        using ca cancelAlarm_frame [of "notificationId a" w1 r w2] by (auto split: if_splits)
      show ?thesis
      proof (cases r)
        case Threw
        with l Some True ca cf w1 show ?thesis
          by (simp add: toggleAlarm_def handleInvariant_def)
      next
        case (Ok u)
        let ?new = "assignFirst (\<lambda>alarm. aId alarm = k)
            (\<lambda>alarm. alarm\<lparr>notificationId := None, isActive := False\<rparr>) alarms"
        obtain r3 w3 where sv: "saveAlarms ?new w2 = (r3, w3)"
          by (cases "saveAlarms ?new w2")
        have "list_all consistent ?new"
          using al by (rule list_all_assignFirst) (simp add: consistent_def)
        with saveAlarms_frame [OF sv] cf w1 have "list_all consistent (alarmsItem w3)"
          by auto
        with l Some True ca Ok sv show ?thesis
          by (simp add: toggleAlarm_def handleInvariant_def)
      qed
    qed
  qed
qed

lemma addAlarm_invariant:
  assumes "handleInvariant w"
  shows "handleInvariant (snd (addAlarm d tId tCreated now nid w))"
proof -
  obtain alarms w1 where l: "loadAlarms w = (alarms, w1)"
    by (cases "loadAlarms w")
  note lf = loadAlarms_frame [OF l]
  have al: "list_all consistent alarms"
    using lf assms by (auto simp: handleInvariant_def)
  have w1: "list_all consistent (alarmsItem w1)"
    using lf assms by (simp add: handleInvariant_def)
  let ?a = "\<lparr> aId = toString tId, time = dataTime d, label = dataLabel d,
               frequency = dataFrequency d, duration = dataDuration d,
               isActive = True, alarmCreatedAt = tCreated, notificationId = None \<rparr>"
  obtain r w2 where sc: "scheduleAlarm ?a now nid w1 = (r, w2)"
    by (cases "scheduleAlarm ?a now nid w1")
  note sf = scheduleAlarm_frame [OF sc]
  show ?thesis
  proof (cases r)
    case Threw
    with l sc sf w1 show ?thesis
      by (simp add: addAlarm_def handleInvariant_def)
  next
    case (Ok h)
    let ?new = "alarms @ [?a\<lparr>notificationId := Some h\<rparr>]"
    obtain r3 w3 where sv: "saveAlarms ?new w2 = (r3, w3)"
      by (cases "saveAlarms ?new w2")
    have "list_all consistent ?new"
      using al by (simp add: consistent_def)
    with saveAlarms_frame [OF sv] sf w1 have "list_all consistent (alarmsItem w3)"
      by auto
    with l sc Ok sv show ?thesis
      by (auto simp: addAlarm_def handleInvariant_def split: result.splits)
  qed
qed

lemma deleteAlarm_invariant:
  assumes "handleInvariant w"
  shows "handleInvariant (snd (deleteAlarm k w))"
proof -
  obtain alarms w1 where l: "loadAlarms w = (alarms, w1)"
    by (cases "loadAlarms w")
  note lf = loadAlarms_frame [OF l]
  have al: "list_all consistent alarms"
    using lf assms by (auto simp: handleInvariant_def)
  have w1: "list_all consistent (alarmsItem w1)"
    using lf assms by (simp add: handleInvariant_def)
  let ?c = "case find (\<lambda>alarm. aId alarm = k) alarms of
              Some alarmToDelete \<Rightarrow>
                (if truthy (notificationId alarmToDelete)
                 then cancelAlarm (notificationId alarmToDelete) w1 else (Ok (), w1))
            | None \<Rightarrow> (Ok (), w1)"
  obtain r w2 where ca: "?c = (r, w2)"
    by (cases ?c)
  have cf: "alarmsItem w2 = alarmsItem w1"
    using ca by (auto split: option.splits if_splits dest: cancelAlarm_frame)
  show ?thesis
  proof (cases r)
    case Threw
    with l ca cf w1 show ?thesis
      by (simp add: deleteAlarm_def handleInvariant_def)
  next
    case (Ok u)
    let ?new = "filter (\<lambda>alarm. aId alarm \<noteq> k) alarms"
    obtain r3 w3 where sv: "saveAlarms ?new (removeDismissalCode k w2) = (r3, w3)"
      by (cases "saveAlarms ?new (removeDismissalCode k w2)")
    have "list_all consistent ?new"
      using al by (simp add: list_all_iff)
    with saveAlarms_frame [OF sv] cf w1 removeDismissalCode_frame [of k w2]
    have "list_all consistent (alarmsItem w3)"
      by auto
    with l ca Ok sv show ?thesis
      by (simp add: deleteAlarm_def handleInvariant_def)
  qed
qed

lemma updateAlarm_invariant:
  assumes "handleInvariant w" and "keepsHandle u"
  shows "handleInvariant (snd (updateAlarm k u w))"
proof -
  obtain alarms w1 where l: "loadAlarms w = (alarms, w1)"
    by (cases "loadAlarms w")
  note lf = loadAlarms_frame [OF l]
  have al: "list_all consistent alarms"
    using lf assms by (auto simp: handleInvariant_def)
  have w1: "list_all consistent (alarmsItem w1)"
    using lf assms by (simp add: handleInvariant_def)
  let ?new = "map (\<lambda>alarm. if aId alarm = k then spreadUpdates alarm u else alarm) alarms"
  obtain r3 w3 where sv: "saveAlarms ?new w1 = (r3, w3)"
    by (cases "saveAlarms ?new w1")
  have "\<And>a. consistent a \<Longrightarrow> consistent (spreadUpdates a u)"
    using assms(2)
    by (auto simp: consistent_def spreadUpdates_def keepsHandle_def split: option.splits)
  then have "list_all consistent ?new"
    using al by (auto simp: list_all_iff)
  with saveAlarms_frame [OF sv] w1 have "list_all consistent (alarmsItem w3)"
    by auto
  with l sv show ?thesis
    by (simp add: updateAlarm_def handleInvariant_def)
qed

lemma find_holds: "find P xs = Some a \<Longrightarrow> P a"
  by (induction xs) (auto split: if_splits)

lemma loadAlarms_no_faults: "faults w = [] \<Longrightarrow> loadAlarms w = (alarmsItem w, w)"
  by (simp add: loadAlarms_def extcall_def)

lemma saveAlarms_no_faults:
  "faults w = [] \<Longrightarrow> saveAlarms alarms w = (Ok (), emit (SetAlarms alarms) (w\<lparr>alarmsItem := alarms\<rparr>))"
  by (simp add: saveAlarms_def extcall_def)

lemma scheduleAlarm_no_faults:
  "faults w = [] \<Longrightarrow>
   scheduleAlarm a now nid w =
     (Ok nid, w\<lparr>pending := pending w @
        [\<lparr>notifIdentifier = nid, dataAlarmId = aId a,
          notifTrigger = alarmTrigger (tzOffset w) a now\<rparr>]\<rparr>)"
  by (simp add: scheduleAlarm_def setupNotificationChannels_def extcall_def)

lemma cancelAlarm_no_faults:
  "faults w = [] \<Longrightarrow>
   cancelAlarm h w =
     (Ok (), if truthy h then w\<lparr>pending := filter (\<lambda>n. Some (notifIdentifier n) \<noteq> h) (pending w)\<rparr>
             else w)"
  by (simp add: cancelAlarm_def extcall_def)

lemma toggleAlarm_on:
  assumes "faults w = []" and "storedAlarm w k = Some a" and "\<not> isActive a"
  shows "fst (toggleAlarm k now nid w) = Ok () \<and>
         storedAlarm (snd (toggleAlarm k now nid w)) k =
           Some (a\<lparr>notificationId := Some nid, isActive := True\<rparr>) \<and>
         list_ex (\<lambda>n. notifIdentifier n = nid \<and> dataAlarmId n = k)
           (pending (snd (toggleAlarm k now nid w)))"
proof -
  have f: "find (\<lambda>alarm. aId alarm = k) (alarmsItem w) = Some a"
    using assms(2) by (simp add: storedAlarm_def)
  then have k: "aId a = k"
    by (auto dest: find_holds)
  have "find (\<lambda>alarm. aId alarm = k)
          (assignFirst (\<lambda>alarm. aId alarm = k)
             (\<lambda>alarm. alarm\<lparr>notificationId := Some nid, isActive := True\<rparr>) (alarmsItem w)) =
        Some (a\<lparr>notificationId := Some nid, isActive := True\<rparr>)"
    using f k by (intro find_assignFirst) simp_all
  then show ?thesis
    using assms(1,3) f k
    by (simp add: toggleAlarm_def loadAlarms_no_faults scheduleAlarm_no_faults
        saveAlarms_no_faults storedAlarm_def emit_def)
qed

lemma toggleAlarm_off:
  assumes "faults w = []" and "storedAlarm w k = Some a" and "isActive a"
  shows "fst (toggleAlarm k now nid w) = Ok () \<and>
         storedAlarm (snd (toggleAlarm k now nid w)) k =
           Some (a\<lparr>notificationId := None, isActive := False\<rparr>) \<and>
         (truthy (notificationId a) \<longrightarrow>
            \<not> list_ex (\<lambda>n. Some (notifIdentifier n) = notificationId a)
                (pending (snd (toggleAlarm k now nid w))))"
proof -
  have f: "find (\<lambda>alarm. aId alarm = k) (alarmsItem w) = Some a"
    using assms(2) by (simp add: storedAlarm_def)
  then have k: "aId a = k"
    by (auto dest: find_holds)
  have "find (\<lambda>alarm. aId alarm = k)
          (assignFirst (\<lambda>alarm. aId alarm = k)
             (\<lambda>alarm. alarm\<lparr>notificationId := None, isActive := False\<rparr>) (alarmsItem w)) =
        Some (a\<lparr>notificationId := None, isActive := False\<rparr>)"
    using f k by (intro find_assignFirst) simp_all
  then show ?thesis
    using assms(1,3) f k
    by (simp add: toggleAlarm_def loadAlarms_no_faults cancelAlarm_no_faults
        saveAlarms_no_faults storedAlarm_def emit_def list_ex_iff)
qed

text \<open>
  C3, as the claim states it, fails for \<^verbatim>\<open>updateAlarm\<close>: it merges the patch into the
  record as given. The patch \<^verbatim>\<open>{isActive: false}\<close> on the active one-time alarm of
  the example leaves an inactive alarm that still has its schedule handle.
\<close>

theorem updateAlarm_counterexample:
  "handleInvariant exampleWorld \<and>
   \<not> handleInvariant (snd (updateAlarm ''1''
        \<lparr> patchTime = None, patchLabel = None, patchFrequency = None, patchDuration = None,
          patchIsActive = Some False, patchNotificationId = None \<rparr> exampleWorld))"
  by (simp add: handleInvariant_def consistent_def updateAlarm_def loadAlarms_def saveAlarms_def
      extcall_def emit_def spreadUpdates_def exampleWorld_def onceAlarm_def dailyAlarm_def
      weeklyAlarm_def)

text \<open>
  C3, amended: \<^verbatim>\<open>isActive == (notificationId != null)\<close> for every stored alarm is
  preserved by \<^verbatim>\<open>addAlarm\<close>, \<^verbatim>\<open>deleteAlarm\<close> and \<^verbatim>\<open>toggleAlarm\<close>, whichever of their
  platform calls throws, and by \<^verbatim>\<open>updateAlarm\<close> when the patch sets neither or both of
  the two fields in agreement. When no platform call throws, toggling an inactive alarm
  stores the handle that the scheduler returned and leaves a pending notification with
  that handle, and toggling an active alarm stores \<^verbatim>\<open>null\<close>, makes it inactive and
  leaves no pending notification with its old handle.
\<close>

theorem repository_handle_invariant:
  assumes "handleInvariant w"
  shows "handleInvariant (snd (addAlarm d tId tCreated now nid w)) \<and>
         handleInvariant (snd (deleteAlarm k w)) \<and>
         handleInvariant (snd (toggleAlarm k now nid w)) \<and>
         (keepsHandle u \<longrightarrow> handleInvariant (snd (updateAlarm k u w))) \<and>
         (faults w = [] \<and> storedAlarm w k = Some a \<and> \<not> isActive a \<longrightarrow>
            fst (toggleAlarm k now nid w) = Ok () \<and>
            storedAlarm (snd (toggleAlarm k now nid w)) k =
              Some (a\<lparr>notificationId := Some nid, isActive := True\<rparr>) \<and>
            list_ex (\<lambda>n. notifIdentifier n = nid \<and> dataAlarmId n = k)
              (pending (snd (toggleAlarm k now nid w)))) \<and>
         (faults w = [] \<and> storedAlarm w k = Some a \<and> isActive a \<longrightarrow>
            fst (toggleAlarm k now nid w) = Ok () \<and>
            storedAlarm (snd (toggleAlarm k now nid w)) k =
              Some (a\<lparr>notificationId := None, isActive := False\<rparr>) \<and>
            (truthy (notificationId a) \<longrightarrow>
               \<not> list_ex (\<lambda>n. Some (notifIdentifier n) = notificationId a)
                   (pending (snd (toggleAlarm k now nid w)))))"
  using addAlarm_invariant [OF assms] deleteAlarm_invariant [OF assms]
    toggleAlarm_invariant [OF assms] updateAlarm_invariant [OF assms]
    toggleAlarm_on [of w k a now nid] toggleAlarm_off [of w k a now nid]
  by blast

lemma exampleWorld_facts:
  "handleInvariant exampleWorld" "faults exampleWorld = []"
  "storedAlarm exampleWorld ''1'' = Some onceAlarm" "isActive onceAlarm"
  "truthy (notificationId onceAlarm)"
  by (simp_all add: handleInvariant_def consistent_def storedAlarm_def truthy_def exampleWorld_def
      onceAlarm_def dailyAlarm_def weeklyAlarm_def)

lemma deactivation_patch:
  "keepsHandle \<lparr> patchTime = None, patchLabel = None, patchFrequency = None,
       patchDuration = None, patchIsActive = Some False, patchNotificationId = Some None \<rparr>"
  by (simp add: keepsHandle_def)

lemma pausedWorld_facts:
  "handleInvariant pausedWorld" "faults pausedWorld = []"
  "storedAlarm pausedWorld ''1'' = Some (onceAlarm\<lparr>notificationId := None, isActive := False\<rparr>)"
  "\<not> isActive (onceAlarm\<lparr>notificationId := None, isActive := False\<rparr>)"
  by (simp_all add: handleInvariant_def consistent_def storedAlarm_def pausedWorld_def
      onceAlarm_def dailyAlarm_def weeklyAlarm_def)

lemma faultyWorld_facts:
  "handleInvariant (exampleWorld\<lparr>faults := [False, True]\<rparr>)"
  "fst (toggleAlarm ''1'' 1000 ''n9'' (exampleWorld\<lparr>faults := [False, True]\<rparr>)) = Threw"
  by (simp_all add: handleInvariant_def consistent_def toggleAlarm_def loadAlarms_def
      cancelAlarm_def extcall_def truthy_def exampleWorld_def onceAlarm_def dailyAlarm_def
      weeklyAlarm_def)

text \<open>
  C3, amended, at concrete inputs: switching the active one-time alarm of the example off,
  switching it on again from \<open>pausedWorld\<close>, and switching it off when the cancellation
  of the notification throws (the second platform call): the operation fails partway and
  the invariant still holds.
\<close>

theorem repository_handle_invariant_witness:
  "(handleInvariant exampleWorld \<and>
    keepsHandle \<lparr> patchTime = None, patchLabel = None, patchFrequency = None,
       patchDuration = None, patchIsActive = Some False, patchNotificationId = Some None \<rparr> \<and>
    faults exampleWorld = [] \<and> storedAlarm exampleWorld ''1'' = Some onceAlarm \<and>
    isActive onceAlarm \<and> truthy (notificationId onceAlarm) \<and>
    handleInvariant (snd (toggleAlarm ''1'' 1000 ''n9'' exampleWorld)) \<and>
    handleInvariant (snd (updateAlarm ''1''
       \<lparr> patchTime = None, patchLabel = None, patchFrequency = None,
         patchDuration = None, patchIsActive = Some False, patchNotificationId = Some None \<rparr>
       exampleWorld)) \<and>
    fst (toggleAlarm ''1'' 1000 ''n9'' exampleWorld) = Ok () \<and>
    storedAlarm (snd (toggleAlarm ''1'' 1000 ''n9'' exampleWorld)) ''1'' =
      Some (onceAlarm\<lparr>notificationId := None, isActive := False\<rparr>) \<and>
    \<not> list_ex (\<lambda>n. Some (notifIdentifier n) = notificationId onceAlarm)
        (pending (snd (toggleAlarm ''1'' 1000 ''n9'' exampleWorld)))) \<and>
   (handleInvariant pausedWorld \<and> faults pausedWorld = [] \<and>
    storedAlarm pausedWorld ''1'' = Some (onceAlarm\<lparr>notificationId := None, isActive := False\<rparr>) \<and>
    \<not> isActive (onceAlarm\<lparr>notificationId := None, isActive := False\<rparr>) \<and>
    handleInvariant (snd (toggleAlarm ''1'' 1000 ''n9'' pausedWorld)) \<and>
    storedAlarm (snd (toggleAlarm ''1'' 1000 ''n9'' pausedWorld)) ''1'' =
      Some (onceAlarm\<lparr>notificationId := Some ''n9'', isActive := True\<rparr>)) \<and>
   (handleInvariant (exampleWorld\<lparr>faults := [False, True]\<rparr>) \<and>
    fst (toggleAlarm ''1'' 1000 ''n9'' (exampleWorld\<lparr>faults := [False, True]\<rparr>)) = Threw \<and>
    handleInvariant (snd (toggleAlarm ''1'' 1000 ''n9'' (exampleWorld\<lparr>faults := [False, True]\<rparr>))))"
proof (intro conjI)
  note a = repository_handle_invariant [OF exampleWorld_facts(1), of _ _ _ 1000 "''n9''" "''1''"
      "\<lparr> patchTime = None, patchLabel = None, patchFrequency = None,
         patchDuration = None, patchIsActive = Some False, patchNotificationId = Some None \<rparr>"
      onceAlarm]
  note b = repository_handle_invariant [OF pausedWorld_facts(1), of _ _ _ 1000 "''n9''" "''1''" _
      "onceAlarm\<lparr>notificationId := None, isActive := False\<rparr>"]
  note c = repository_handle_invariant [OF faultyWorld_facts(1), of _ _ _ 1000 "''n9''" "''1''"]
  show "handleInvariant exampleWorld" "faults exampleWorld = []"
    "storedAlarm exampleWorld ''1'' = Some onceAlarm" "isActive onceAlarm"
    "truthy (notificationId onceAlarm)"
    by (rule exampleWorld_facts)+
  show "keepsHandle \<lparr> patchTime = None, patchLabel = None, patchFrequency = None,
       patchDuration = None, patchIsActive = Some False, patchNotificationId = Some None \<rparr>"
    by (rule deactivation_patch)
  show "handleInvariant pausedWorld" "faults pausedWorld = []"
    "storedAlarm pausedWorld ''1'' = Some (onceAlarm\<lparr>notificationId := None, isActive := False\<rparr>)"
    "\<not> isActive (onceAlarm\<lparr>notificationId := None, isActive := False\<rparr>)"
    by (rule pausedWorld_facts)+
  show "handleInvariant (exampleWorld\<lparr>faults := [False, True]\<rparr>)"
    "fst (toggleAlarm ''1'' 1000 ''n9'' (exampleWorld\<lparr>faults := [False, True]\<rparr>)) = Threw"
    by (rule faultyWorld_facts)+
  show "handleInvariant (snd (toggleAlarm ''1'' 1000 ''n9'' exampleWorld))"
    using a by blast
  show "handleInvariant (snd (updateAlarm ''1''
       \<lparr> patchTime = None, patchLabel = None, patchFrequency = None,
         patchDuration = None, patchIsActive = Some False, patchNotificationId = Some None \<rparr>
       exampleWorld))"
    using a deactivation_patch by blast
  show "fst (toggleAlarm ''1'' 1000 ''n9'' exampleWorld) = Ok ()"
    "storedAlarm (snd (toggleAlarm ''1'' 1000 ''n9'' exampleWorld)) ''1'' =
      Some (onceAlarm\<lparr>notificationId := None, isActive := False\<rparr>)"
    "\<not> list_ex (\<lambda>n. Some (notifIdentifier n) = notificationId onceAlarm)
        (pending (snd (toggleAlarm ''1'' 1000 ''n9'' exampleWorld)))"
    using a exampleWorld_facts by blast+
  show "handleInvariant (snd (toggleAlarm ''1'' 1000 ''n9'' pausedWorld))"
    using b by blast
  show "storedAlarm (snd (toggleAlarm ''1'' 1000 ''n9'' pausedWorld)) ''1'' =
      Some (onceAlarm\<lparr>notificationId := Some ''n9'', isActive := True\<rparr>)"
    using b pausedWorld_facts by simp
  show "handleInvariant (snd (toggleAlarm ''1'' 1000 ''n9'' (exampleWorld\<lparr>faults := [False, True]\<rparr>)))"
    using c by blast
qed

subsection \<open>Dismissal screen: the attempt cap\<close>

lemma loadDismissalCodes_no_faults: "faults w = [] \<Longrightarrow> loadDismissalCodes w = (codesItem w, w)"
  by (simp add: loadDismissalCodes_def extcall_def)

lemma setItemCodes_no_faults:
  "faults w = [] \<Longrightarrow>
   setItemCodes codes w = (Ok (), emit (SetCodes codes) (w\<lparr>codesItem := codes\<rparr>))"
  by (simp add: setItemCodes_def extcall_def)

lemma incrementCodeAttempts_no_faults:
  assumes "faults w = []" and "storedCode w k = Some r" and "attempts r = Some n"
  shows "incrementCodeAttempts k w =
     (n + 1, emit (SetCodes (AList.update k (r\<lparr>attempts := Some (n + 1)\<rparr>) (codesItem w)))
               (w\<lparr>codesItem := AList.update k (r\<lparr>attempts := Some (n + 1)\<rparr>) (codesItem w)\<rparr>))"
  using assms
  by (simp add: incrementCodeAttempts_def loadDismissalCodes_no_faults setItemCodes_no_faults
      getProperty_def recordAttempts_def orZero_def storedCode_def Let_def)

lemma stopAlarm_no_faults:
  "faults w = [] \<Longrightarrow>
   stopAlarm s w = (s\<lparr>audioPlayerRef := False, vibrating := False, isPlaying := False\<rparr>, w)"
  by (cases "audioPlayerRef s") (simp_all add: stopAlarm_def extcall_def)

lemma removeDismissalCode_no_faults:
  "faults w = [] \<Longrightarrow>
   removeDismissalCode k w =
     emit (SetCodes (AList.delete k (codesItem w))) (w\<lparr>codesItem := AList.delete k (codesItem w)\<rparr>)"
  by (simp add: removeDismissalCode_def deleteProperty_def loadDismissalCodes_no_faults
      setItemCodes_no_faults)

lemma updateAlarm_no_faults:
  "faults w = [] \<Longrightarrow>
   updateAlarm k u w =
     saveAlarms (map (\<lambda>alarm. if aId alarm = k then spreadUpdates alarm u else alarm) (alarmsItem w)) w"
  by (simp add: updateAlarm_def loadAlarms_no_faults)

lemma deactivateOnceAlarm_no_faults:
  assumes "faults w = []"
  shows "fst (deactivateOnceAlarm s w) = Ok () \<and>
         faults (snd (deactivateOnceAlarm s w)) = [] \<and>
         codesItem (snd (deactivateOnceAlarm s w)) = codesItem w"
  using assms
  by (auto simp: deactivateOnceAlarm_def cancelAlarm_no_faults updateAlarm_no_faults
      saveAlarms_no_faults emit_def split: option.splits)

lemma sessionPhase_emit:
  "a \<noteq> AlarmDismissed \<Longrightarrow> a \<noteq> AlarmTimeout \<Longrightarrow>
   sessionPhase (emit (Alerted a) w) = sessionPhase w"
  by (simp add: sessionPhase_def emit_def)

lemma sessionPhase_SetCodes:
  "sessionPhase (emit (SetCodes cs) w) = sessionPhase w"
  by (simp add: sessionPhase_def emit_def)

lemma sessionPhase_codesItem:
  "sessionPhase (w\<lparr>codesItem := cs\<rparr>) = sessionPhase w"
  by (simp add: sessionPhase_def)

lemma sessionPhase_dismissed:
  "sessionPhase (emit (Alerted AlarmDismissed) w) = Success"
  by (simp add: sessionPhase_def emit_def)

lemmas submit_eval = submit_def handleSubmit_def incrementCodeAttempts_def loadDismissalCodes_def
  setItemCodes_def getProperty_def recordAttempts_def orZero_def extcall_def emit_def trim_def
  toUpperCase_def upperChar_def isSpace_def Let_def

lemma five_wrong_submissions:
  "afterFiveWrong =
   (ringingScreen\<lparr>attemptsState := 5\<rparr>,
    exampleWorld\<lparr>codesItem := [(''1'', liveCode\<lparr>attempts := Some 5\<rparr>)],
      log := [SetCodes [(''1'', liveCode\<lparr>attempts := Some 1\<rparr>)], Alerted (IncorrectCode 4),
              SetCodes [(''1'', liveCode\<lparr>attempts := Some 2\<rparr>)], Alerted (IncorrectCode 3),
              SetCodes [(''1'', liveCode\<lparr>attempts := Some 3\<rparr>)], Alerted (IncorrectCode 2),
              SetCodes [(''1'', liveCode\<lparr>attempts := Some 4\<rparr>)], Alerted (IncorrectCode 1),
              SetCodes [(''1'', liveCode\<lparr>attempts := Some 5\<rparr>)],
              Alerted TooManyFailedAttempts]\<rparr>)"
  by (simp add: afterFiveWrong_def submit_eval ringingScreen_def exampleWorld_def liveCode_def)

text \<open>
  C1, as the claim states it, fails. After five wrong submissions the stored attempts
  are 5 and the session is still ringing; the sixth submission carries the correct code,
  raises the stored attempts to 6 and is answered with "Maximum Attempts Exceeded":
  the code is not compared and the session keeps ringing instead of succeeding.
\<close>

theorem handleSubmit_cap_counterexample:
  "sessionPhase (snd afterFiveWrong) = Ringing \<and>
   storedCode (snd afterFiveWrong) ''1'' = Some (liveCode\<lparr>attempts := Some 5\<rparr>) \<and>
   code liveCode = ''AB12CD34'' \<and>
   sessionPhase (snd afterSixth) = Ringing \<and>
   last (log (snd afterSixth)) = Alerted MaximumAttemptsExceeded \<and>
   vibrating (fst afterSixth) \<and>
   storedCode (snd afterSixth) ''1'' = Some (liveCode\<lparr>attempts := Some 6\<rparr>)"
  unfolding afterSixth_def five_wrong_submissions
  by (simp add: submit_eval sessionPhase_def storedCode_def ringingScreen_def
      exampleWorld_def liveCode_def)

text \<open>
  C1, amended: in a ringing session whose stored code record has \<open>n\<close> attempts, and
  when no platform call throws, a submission first raises the stored attempts to
  \<open>n + 1\<close>. If \<open>n\<close> is 5 or more (five submissions have been made), the submission is
  rejected with "Maximum Attempts Exceeded" whatever was typed, and the session stays
  as it was (ringing). If \<open>n\<close> is less than 5, a wrong code clears the input, reports
  the remaining attempts (or, at the fifth attempt, that the attempts are exhausted) and
  leaves the session as it was, and the correct code (trimmed, upper-cased) stops sound
  and vibration, deletes the code record and ends the session in Success. Wrong
  submissions and the attempt cap never end the session.
\<close>

theorem handleSubmit_attempt_cap:
  assumes "faults w = []" and "storedCode w (alarmId s) = Some r" and "attempts r = Some n"
    and "dismissalCodeData s = Some cd"
  shows
    "(5 \<le> n \<longrightarrow>
        handleSubmit s w =
          (Ok (), s\<lparr>attemptsState := n + 1\<rparr>,
           emit (Alerted MaximumAttemptsExceeded) (snd (incrementCodeAttempts (alarmId s) w))) \<and>
        sessionPhase (snd (snd (handleSubmit s w))) = sessionPhase w) \<and>
     (n < 5 \<and> toUpperCase (trim (userInput s)) \<noteq> code cd \<longrightarrow>
        handleSubmit s w =
          (Ok (), s\<lparr>attemptsState := n + 1, userInput := []\<rparr>,
           emit (Alerted (if 5 \<le> n + 1 then TooManyFailedAttempts else IncorrectCode (5 - (n + 1))))
             (snd (incrementCodeAttempts (alarmId s) w))) \<and>
        sessionPhase (snd (snd (handleSubmit s w))) = sessionPhase w) \<and>
     (n < 5 \<and> toUpperCase (trim (userInput s)) = code cd \<longrightarrow>
        fst (handleSubmit s w) = Ok () \<and>
        sessionPhase (snd (snd (handleSubmit s w))) = Success \<and>
        \<not> vibrating (fst (snd (handleSubmit s w))) \<and>
        \<not> isPlaying (fst (snd (handleSubmit s w))) \<and>
        storedCode (snd (snd (handleSubmit s w))) (alarmId s) = None) \<and>
     storedCode (snd (incrementCodeAttempts (alarmId s) w)) (alarmId s) =
       Some (r\<lparr>attempts := Some (n + 1)\<rparr>)"
proof -
  let ?cs = "AList.update (alarmId s) (r\<lparr>attempts := Some (n + 1)\<rparr>) (codesItem w)"
  let ?w1 = "emit (SetCodes ?cs) (w\<lparr>codesItem := ?cs\<rparr>)"
  have inc: "incrementCodeAttempts (alarmId s) w = (n + 1, ?w1)"
    using assms(1-3) by (rule incrementCodeAttempts_no_faults)
  have f1: "faults ?w1 = []"
    using assms(1) by (simp add: emit_def)
  have ph1: "sessionPhase ?w1 = sessionPhase w"
    by (simp add: sessionPhase_SetCodes sessionPhase_codesItem)
  have blocked: "5 \<le> n \<longrightarrow>
        handleSubmit s w =
          (Ok (), s\<lparr>attemptsState := n + 1\<rparr>, emit (Alerted MaximumAttemptsExceeded) ?w1) \<and>
        sessionPhase (snd (snd (handleSubmit s w))) = sessionPhase w"
    using inc ph1 by (simp add: handleSubmit_def sessionPhase_emit)
  have wrong: "n < 5 \<and> toUpperCase (trim (userInput s)) \<noteq> code cd \<longrightarrow>
        handleSubmit s w =
          (Ok (), s\<lparr>attemptsState := n + 1, userInput := []\<rparr>,
           emit (Alerted (if 5 \<le> n + 1 then TooManyFailedAttempts else IncorrectCode (5 - (n + 1))))
             ?w1) \<and>
        sessionPhase (snd (snd (handleSubmit s w))) = sessionPhase w"
    using inc ph1 assms(4)
    by (simp add: handleSubmit_def sessionPhase_emit Let_def)
  let ?w2 = "removeDismissalCode (alarmId s) ?w1"
  have f2: "faults ?w2 = []" and c2: "map_of (codesItem ?w2) (alarmId s) = None"
    using f1 by (simp_all add: removeDismissalCode_no_faults emit_def delete_conv')
  note d = deactivateOnceAlarm_no_faults [OF f2, of s]
  have right: "n < 5 \<and> toUpperCase (trim (userInput s)) = code cd \<longrightarrow>
        fst (handleSubmit s w) = Ok () \<and>
        sessionPhase (snd (snd (handleSubmit s w))) = Success \<and>
        \<not> vibrating (fst (snd (handleSubmit s w))) \<and>
        \<not> isPlaying (fst (snd (handleSubmit s w))) \<and>
        storedCode (snd (snd (handleSubmit s w))) (alarmId s) = None"
  proof (intro impI, elim conjE)
    assume n: "n < 5" and m: "toUpperCase (trim (userInput s)) = code cd"
    obtain w3 where w3: "deactivateOnceAlarm s ?w2 = (Ok (), w3)"
      using d by (cases "deactivateOnceAlarm s ?w2") auto
    have c3: "map_of (codesItem w3) (alarmId s) = None"
      using d w3 c2 by simp
    have "handleSubmit s w =
        (Ok (), s\<lparr>attemptsState := n + 1, audioPlayerRef := False, vibrating := False,
                  isPlaying := False\<rparr>, emit (Alerted AlarmDismissed) w3)"
      using inc n m assms(4) w3 f1
      by (simp add: handleSubmit_def Let_def stopAlarm_no_faults)
    then show "fst (handleSubmit s w) = Ok () \<and>
        sessionPhase (snd (snd (handleSubmit s w))) = Success \<and>
        \<not> vibrating (fst (snd (handleSubmit s w))) \<and>
        \<not> isPlaying (fst (snd (handleSubmit s w))) \<and>
        storedCode (snd (snd (handleSubmit s w))) (alarmId s) = None"
      using c3 by (simp add: sessionPhase_def storedCode_def emit_def)
  qed
  have w1eq: "snd (incrementCodeAttempts (alarmId s) w) = ?w1"
    using inc by simp
  have stored: "storedCode ?w1 (alarmId s) = Some (r\<lparr>attempts := Some (n + 1)\<rparr>)"
    by (simp add: storedCode_def emit_def update_conv')
  show ?thesis
    unfolding w1eq by (intro conjI blocked wrong right stored)
qed

lemma typed_code: "toUpperCase (trim '' ab12cd34'') = ''AB12CD34''"
  by code_simp

text \<open>
  C1, amended, at concrete inputs: on the fresh ringing screen the correct code, typed in
  lower case after a blank, ends the session in Success; after five wrong submissions the
  correct code leaves it ringing.
\<close>

theorem handleSubmit_attempt_cap_witness:
  "faults exampleWorld = [] \<and> storedCode exampleWorld (alarmId ringingScreen) = Some liveCode \<and>
   attempts liveCode = Some 0 \<and> dismissalCodeData ringingScreen = Some liveCode \<and>
   toUpperCase (trim '' ab12cd34'') = code liveCode \<and>
   sessionPhase (snd (snd (handleSubmit (ringingScreen\<lparr>userInput := '' ab12cd34''\<rparr>) exampleWorld)))
     = Success \<and>
   faults (snd afterFiveWrong) = [] \<and>
   storedCode (snd afterFiveWrong) (alarmId ringingScreen) = Some (liveCode\<lparr>attempts := Some 5\<rparr>) \<and>
   sessionPhase (snd (snd (handleSubmit ((fst afterFiveWrong)\<lparr>userInput := ''AB12CD34''\<rparr>)
     (snd afterFiveWrong)))) = Ringing"
proof -
  let ?s = "ringingScreen\<lparr>userInput := '' ab12cd34''\<rparr>"
  have h1: "faults exampleWorld = []"
    by (simp add: exampleWorld_def)
  have h2: "storedCode exampleWorld (alarmId ?s) = Some liveCode"
    by (simp add: storedCode_def exampleWorld_def ringingScreen_def)
  have h3: "attempts liveCode = Some 0"
    by (simp add: liveCode_def)
  have h4: "dismissalCodeData ?s = Some liveCode"
    by (simp add: ringingScreen_def)
  have h5: "toUpperCase (trim (userInput ?s)) = code liveCode"
    by (simp add: typed_code liveCode_def)
  have "(0::int) < 5"
    by simp
  with handleSubmit_attempt_cap [OF h1 h2 h3 h4] h5
  have first: "sessionPhase (snd (snd (handleSubmit ?s exampleWorld))) = Success"
    by blast
  let ?s5 = "(fst afterFiveWrong)\<lparr>userInput := ''AB12CD34''\<rparr>"
  let ?w5 = "snd afterFiveWrong"
  have g1: "faults ?w5 = []"
    by (simp add: five_wrong_submissions exampleWorld_def)
  have g2: "storedCode ?w5 (alarmId ?s5) = Some (liveCode\<lparr>attempts := Some 5\<rparr>)"
    by (simp add: five_wrong_submissions storedCode_def ringingScreen_def)
  have g3: "attempts (liveCode\<lparr>attempts := Some 5\<rparr>) = Some 5"
    by simp
  have g4: "dismissalCodeData ?s5 = Some liveCode"
    by (simp add: five_wrong_submissions ringingScreen_def)
  have g5: "sessionPhase ?w5 = Ringing"
    by (simp add: five_wrong_submissions sessionPhase_def)
  have "(5::int) \<le> 5"
    by simp
  with handleSubmit_attempt_cap [OF g1 g2 g3 g4]
  have "sessionPhase (snd (snd (handleSubmit ?s5 ?w5))) = sessionPhase ?w5"
    by blast
  with g5 have sixth: "sessionPhase (snd (snd (handleSubmit ?s5 ?w5))) = Ringing"
    by simp
  have h2': "storedCode exampleWorld (alarmId ringingScreen) = Some liveCode"
    and h4': "dismissalCodeData ringingScreen = Some liveCode"
    and h5': "toUpperCase (trim '' ab12cd34'') = code liveCode"
    using h2 h4 h5 by simp_all
  have g2': "storedCode ?w5 (alarmId ringingScreen) = Some (liveCode\<lparr>attempts := Some 5\<rparr>)"
    using g2 by (simp add: five_wrong_submissions)
  show ?thesis
    by (intro conjI h1 h2' h3 h4' h5' first g1 g2' sixth)
qed

subsection \<open>Dismissal screen: the order of persisting and reporting\<close>

lemma setItemCodes_log:
  "setItemCodes codes w = (r, w') \<Longrightarrow> \<exists>ext. log w' = log w @ ext"
  by (auto simp: setItemCodes_def emit_def split: prod.splits bool.splits dest: extcall_frame)

lemma saveAlarms_log:
  "saveAlarms alarms w = (r, w') \<Longrightarrow> \<exists>ext. log w' = log w @ ext"
  by (auto simp: saveAlarms_def emit_def split: prod.splits bool.splits dest: extcall_frame)

lemma removeDismissalCode_log: "\<exists>ext. log (removeDismissalCode k w) = log w @ ext"
proof -
  obtain codes w1 where l: "loadDismissalCodes w = (codes, w1)"
    by (cases "loadDismissalCodes w")
  obtain r w2 where s: "setItemCodes (deleteProperty k codes) w1 = (r, w2)"
    by (cases "setItemCodes (deleteProperty k codes) w1")
  from loadDismissalCodes_frame [OF l] setItemCodes_log [OF s] l s show ?thesis
    by (simp add: removeDismissalCode_def)
qed

lemma updateAlarm_log: "\<exists>ext. log (snd (updateAlarm k u w)) = log w @ ext"
proof -
  obtain alarms w1 where l: "loadAlarms w = (alarms, w1)"
    by (cases "loadAlarms w")
  let ?new = "map (\<lambda>alarm. if aId alarm = k then spreadUpdates alarm u else alarm) alarms"
  obtain r w2 where s: "saveAlarms ?new w1 = (r, w2)"
    by (cases "saveAlarms ?new w1")
  from loadAlarms_frame [OF l] saveAlarms_log [OF s] l s show ?thesis
    by (simp add: updateAlarm_def)
qed

lemma deactivateOnceAlarm_log: "\<exists>ext. log (snd (deactivateOnceAlarm s w)) = log w @ ext"
proof (cases "alarm s")
  case None
  then show ?thesis by (simp add: deactivateOnceAlarm_def)
next
  case (Some a)
  show ?thesis
  proof (cases "frequency a = ''once''")
    case False
    with Some show ?thesis by (simp add: deactivateOnceAlarm_def)
  next
    case True
    let ?c = "if truthy (notificationId a) then cancelAlarm (notificationId a) w else (Ok (), w)"
    obtain r w1 where c: "?c = (r, w1)"
      by (cases ?c)
    have l1: "log w1 = log w"
      using c cancelAlarm_frame [of "notificationId a" w r w1] by (auto split: if_splits)
    show ?thesis
    proof (cases r)
      case Threw
      with Some True c l1 show ?thesis by (simp add: deactivateOnceAlarm_def)
    next
      case (Ok u)
      with Some True c l1 updateAlarm_log [of "alarmId s" _ w1] show ?thesis
        by (simp add: deactivateOnceAlarm_def)
    qed
  qed
qed

lemma stopAlarm_frame:
  "log (snd (stopAlarm s w)) = log w \<and> codesItem (snd (stopAlarm s w)) = codesItem w \<and>
   alarmsItem (snd (stopAlarm s w)) = alarmsItem w \<and> pending (snd (stopAlarm s w)) = pending w \<and>
   attemptsState (fst (stopAlarm s w)) = attemptsState s"
proof -
  obtain f1 w1 where e1: "extcall w = (f1, w1)"
    by (cases "extcall w")
  obtain f2 w2 where e2: "extcall w1 = (f2, w2)"
    by (cases "extcall w1")
  from extcall_frame [OF e1] extcall_frame [OF e2] e1 e2 show ?thesis
    by (cases f1; cases f2) (simp_all add: stopAlarm_def)
qed

lemma handleSubmit_after_increment:
  assumes "incrementCodeAttempts (alarmId s) w = (m, w1)"
  shows "\<exists>ext. log (snd (snd (handleSubmit s w))) = log w1 @ ext \<and>
           (fst (handleSubmit s w) = Ok () \<longrightarrow> (\<exists>a. Alerted a \<in> set ext)) \<and>
           attemptsState (fst (snd (handleSubmit s w))) = m"
proof (cases "m > 5")
  case True
  with assms show ?thesis
    by (simp add: handleSubmit_def emit_def)
next
  case le: False
  show ?thesis
  proof (cases "dismissalCodeData s")
    case None
    with assms le show ?thesis
      by (simp add: handleSubmit_def)
  next
    case (Some cd)
    show ?thesis
    proof (cases "toUpperCase (trim (userInput s)) = code cd")
      case False
      with assms le Some show ?thesis
        by (simp add: handleSubmit_def emit_def Let_def)
    next
      case True
      let ?s1 = "s\<lparr>attemptsState := m\<rparr>"
      obtain s2 w2 where st: "stopAlarm ?s1 w1 = (s2, w2)"
        by (cases "stopAlarm ?s1 w1")
      have l2: "log w2 = log w1" and a2: "attemptsState s2 = m"
        using stopAlarm_frame [of ?s1 w1] st by simp_all
      obtain e3 where l3: "log (removeDismissalCode (alarmId s) w2) = log w2 @ e3"
        using removeDismissalCode_log by blast
      obtain r w4 where d: "deactivateOnceAlarm s (removeDismissalCode (alarmId s) w2) = (r, w4)"
        by (cases "deactivateOnceAlarm s (removeDismissalCode (alarmId s) w2)")
      obtain e4 where l4: "log w4 = log (removeDismissalCode (alarmId s) w2) @ e4"
        using deactivateOnceAlarm_log [of s "removeDismissalCode (alarmId s) w2"] d by auto
      show ?thesis
      proof (cases r)
        case Threw
        with assms le Some True st d l2 l3 l4 a2 show ?thesis
          by (simp add: handleSubmit_def Let_def)
      next
        case (Ok u)
        with assms le Some True st d l2 l3 l4 a2 show ?thesis
          by (auto simp: handleSubmit_def Let_def emit_def)
      qed
    qed
  qed
qed

lemma recordAttempts_frame:
  "prototypeAttempts w' = prototypeAttempts w \<Longrightarrow> recordAttempts w' r = recordAttempts w r"
  by (cases "attempts r") (simp_all add: recordAttempts_def inheritedAttempts_def)

lemma incrementCodeAttempts_persists:
  assumes "storedCode w k = Some r"
    and "\<not> fst (extcall w)" and "\<not> fst (extcall (snd (extcall w)))"
  shows "\<exists>w1. incrementCodeAttempts k w = (orZero (recordAttempts w r) + 1, w1) \<and>
         codesItem w1 =
           AList.update k (r\<lparr>attempts := Some (orZero (recordAttempts w r) + 1)\<rparr>) (codesItem w) \<and>
         log w1 = log w @ [SetCodes (codesItem w1)]"
proof -
  let ?n = "orZero (recordAttempts w r) + 1"
  let ?cs = "AList.update k (r\<lparr>attempts := Some ?n\<rparr>) (codesItem w)"
  obtain w0 where e0: "extcall w = (False, w0)"
    using assms(2) by (cases "extcall w") auto
  obtain w0' where e1: "extcall w0 = (False, w0')"
    using assms(3) e0 by (cases "extcall w0") auto
  note f0 = extcall_frame [OF e0] and f1 = extcall_frame [OF e1]
  have ld: "loadDismissalCodes w = (codesItem w, w0)"
    using e0 f0 by (simp add: loadDismissalCodes_def)
  have gp: "getProperty (codesItem w) k = Own r"
    using assms(1) by (simp add: getProperty_def storedCode_def)
  have ra: "recordAttempts w0 r = recordAttempts w r"
    using f0 by (intro recordAttempts_frame) simp
  have si: "setItemCodes ?cs w0 = (Ok (), emit (SetCodes ?cs) (w0'\<lparr>codesItem := ?cs\<rparr>))"
    using e1 by (simp add: setItemCodes_def)
  have inc: "incrementCodeAttempts k w = (?n, emit (SetCodes ?cs) (w0'\<lparr>codesItem := ?cs\<rparr>))"
    by (simp add: incrementCodeAttempts_def ld gp ra si Let_def)
  have "codesItem (emit (SetCodes ?cs) (w0'\<lparr>codesItem := ?cs\<rparr>)) = ?cs"
    and "log (emit (SetCodes ?cs) (w0'\<lparr>codesItem := ?cs\<rparr>)) = log w @ [SetCodes ?cs]"
    using f0 f1 by (simp_all add: emit_def)
  with inc show ?thesis
    by simp
qed

lemma incrementCodeAttempts_write_fails:
  assumes "storedCode w k = Some r"
    and "\<not> fst (extcall w)" and "fst (extcall (snd (extcall w)))"
  shows "fst (incrementCodeAttempts k w) = 0 \<and>
         codesItem (snd (incrementCodeAttempts k w)) = codesItem w \<and>
         log (snd (incrementCodeAttempts k w)) = log w"
proof -
  obtain w0 where e0: "extcall w = (False, w0)"
    using assms(2) by (cases "extcall w") auto
  obtain w0' where e1: "extcall w0 = (True, w0')"
    using assms(3) e0 by (cases "extcall w0") auto
  from extcall_frame [OF e0] extcall_frame [OF e1] e0 e1 assms(1) show ?thesis
    by (simp add: incrementCodeAttempts_def loadDismissalCodes_def setItemCodes_def
        getProperty_def storedCode_def Let_def)
qed

lemma handleSubmit_no_match:
  assumes "incrementCodeAttempts (alarmId s) w = (m, w1)"
    and "5 < m \<or> (\<forall>cd. dismissalCodeData s = Some cd \<longrightarrow>
                       toUpperCase (trim (userInput s)) \<noteq> code cd)"
  shows "codesItem (snd (snd (handleSubmit s w))) = codesItem w1"
proof (cases "5 < m")
  case True
  with assms(1) show ?thesis
    by (simp add: handleSubmit_def emit_def)
next
  case False
  show ?thesis
  proof (cases "dismissalCodeData s")
    case None
    with assms(1) False show ?thesis
      by (simp add: handleSubmit_def)
  next
    case (Some cd)
    with assms(2) False have "toUpperCase (trim (userInput s)) \<noteq> code cd"
      by blast
    with assms(1) False Some show ?thesis
      by (simp add: handleSubmit_def emit_def Let_def)
  qed
qed

lemma handleSubmit_wrong_after_failed_write:
  assumes "fst (incrementCodeAttempts (alarmId s) w) = 0"
    and "dismissalCodeData s = Some cd" and "toUpperCase (trim (userInput s)) \<noteq> code cd"
  shows "handleSubmit s w =
     (Ok (), s\<lparr>attemptsState := 0, userInput := []\<rparr>,
      emit (Alerted (IncorrectCode 5)) (snd (incrementCodeAttempts (alarmId s) w)))"
proof -
  obtain w1 where "incrementCodeAttempts (alarmId s) w = (0, w1)"
    using assms(1) by (cases "incrementCodeAttempts (alarmId s) w") auto
  with assms(2,3) show ?thesis
    by (simp add: handleSubmit_def Let_def)
qed

text \<open>
  C7, as the claim states it, fails when the write of the store throws:
  \<^verbatim>\<open>incrementCodeAttempts\<close> catches the exception and returns 0, and \<^verbatim>\<open>handleSubmit\<close>
  goes on to compare and to report. On the ringing screen of the example, with the
  second platform call (the write) throwing, a wrong submission is answered with
  "Incorrect Code" while nothing was written and the stored attempts are still 0.
\<close>

theorem handleSubmit_write_fails_counterexample:
  "storedCode (exampleWorld\<lparr>faults := [False, True]\<rparr>) (alarmId ringingScreen) = Some liveCode \<and>
   attempts liveCode = Some 0 \<and>
   fst (handleSubmit (ringingScreen\<lparr>userInput := ''X''\<rparr>)
          (exampleWorld\<lparr>faults := [False, True]\<rparr>)) = Ok () \<and>
   log (snd (snd (handleSubmit (ringingScreen\<lparr>userInput := ''X''\<rparr>)
          (exampleWorld\<lparr>faults := [False, True]\<rparr>)))) = [Alerted (IncorrectCode 5)] \<and>
   storedCode (snd (snd (handleSubmit (ringingScreen\<lparr>userInput := ''X''\<rparr>)
          (exampleWorld\<lparr>faults := [False, True]\<rparr>)))) (alarmId ringingScreen) = Some liveCode"
  by (simp add: submit_eval storedCode_def ringingScreen_def exampleWorld_def liveCode_def)

text \<open>
  C7, amended: on a submission in a ringing session (a code record is stored for the
  alarm of the screen and the store can be read), \<^verbatim>\<open>handleSubmit\<close> first runs
  \<^verbatim>\<open>incrementCodeAttempts\<close>. When its write succeeds, the stored record has its attempts
  raised by one before anything else happens: that write is the first thing done to the
  outside, the attempts shown are that number, every dialog that reports the outcome
  comes after it (a run that returns normally shows one), whatever fails later, and
  unless the submitted code matches and is accepted the store still holds the raised
  attempts at the end. When the write throws, the exception is swallowed: the attempts
  are taken to be 0, nothing is persisted, and the input is still compared and the result
  reported (a wrong code is answered with "Incorrect Code", five attempts remaining).
\<close>

theorem handleSubmit_persists_first:
  assumes "storedCode w (alarmId s) = Some r" and "\<not> fst (extcall w)"
  shows
    "(\<not> fst (extcall (snd (extcall w))) \<longrightarrow>
        (\<exists>w1 ext.
           incrementCodeAttempts (alarmId s) w = (orZero (recordAttempts w r) + 1, w1) \<and>
           storedCode w1 (alarmId s) =
             Some (r\<lparr>attempts := Some (orZero (recordAttempts w r) + 1)\<rparr>) \<and>
           log w1 = log w @ [SetCodes (codesItem w1)] \<and>
           log (snd (snd (handleSubmit s w))) = log w1 @ ext \<and>
           (fst (handleSubmit s w) = Ok () \<longrightarrow> (\<exists>a. Alerted a \<in> set ext)) \<and>
           attemptsState (fst (snd (handleSubmit s w))) = orZero (recordAttempts w r) + 1 \<and>
           (5 < orZero (recordAttempts w r) + 1 \<or>
            (\<forall>cd. dismissalCodeData s = Some cd \<longrightarrow>
                    toUpperCase (trim (userInput s)) \<noteq> code cd) \<longrightarrow>
              codesItem (snd (snd (handleSubmit s w))) = codesItem w1))) \<and>
     (fst (extcall (snd (extcall w))) \<longrightarrow>
        fst (incrementCodeAttempts (alarmId s) w) = 0 \<and>
        codesItem (snd (incrementCodeAttempts (alarmId s) w)) = codesItem w \<and>
        log (snd (incrementCodeAttempts (alarmId s) w)) = log w \<and>
        (\<forall>cd. dismissalCodeData s = Some cd \<and> toUpperCase (trim (userInput s)) \<noteq> code cd \<longrightarrow>
           handleSubmit s w =
             (Ok (), s\<lparr>attemptsState := 0, userInput := []\<rparr>,
              emit (Alerted (IncorrectCode 5)) (snd (incrementCodeAttempts (alarmId s) w)))))"
proof (intro conjI impI)
  let ?n = "orZero (recordAttempts w r) + 1"
  assume ok: "\<not> fst (extcall (snd (extcall w)))"
  obtain w1 where inc: "incrementCodeAttempts (alarmId s) w = (?n, w1)"
    and cs: "codesItem w1 = AList.update (alarmId s) (r\<lparr>attempts := Some ?n\<rparr>) (codesItem w)"
    and l1: "log w1 = log w @ [SetCodes (codesItem w1)]"
    using incrementCodeAttempts_persists [OF assms ok] by blast
  obtain ext where ext: "log (snd (snd (handleSubmit s w))) = log w1 @ ext"
    and al: "fst (handleSubmit s w) = Ok () \<longrightarrow> (\<exists>a. Alerted a \<in> set ext)"
    and at: "attemptsState (fst (snd (handleSubmit s w))) = ?n"
    using handleSubmit_after_increment [OF inc] by blast
  have st: "storedCode w1 (alarmId s) = Some (r\<lparr>attempts := Some ?n\<rparr>)"
    using cs by (simp add: storedCode_def update_conv')
  have keep: "5 < ?n \<or> (\<forall>cd. dismissalCodeData s = Some cd \<longrightarrow>
                    toUpperCase (trim (userInput s)) \<noteq> code cd) \<longrightarrow>
              codesItem (snd (snd (handleSubmit s w))) = codesItem w1"
    using handleSubmit_no_match [OF inc] by blast
  from inc st l1 ext al at keep
  show "\<exists>w1 ext.
           incrementCodeAttempts (alarmId s) w = (?n, w1) \<and>
           storedCode w1 (alarmId s) = Some (r\<lparr>attempts := Some ?n\<rparr>) \<and>
           log w1 = log w @ [SetCodes (codesItem w1)] \<and>
           log (snd (snd (handleSubmit s w))) = log w1 @ ext \<and>
           (fst (handleSubmit s w) = Ok () \<longrightarrow> (\<exists>a. Alerted a \<in> set ext)) \<and>
           attemptsState (fst (snd (handleSubmit s w))) = ?n \<and>
           (5 < ?n \<or>
            (\<forall>cd. dismissalCodeData s = Some cd \<longrightarrow>
                    toUpperCase (trim (userInput s)) \<noteq> code cd) \<longrightarrow>
              codesItem (snd (snd (handleSubmit s w))) = codesItem w1)"
    by blast
next
  assume bad: "fst (extcall (snd (extcall w)))"
  note f = incrementCodeAttempts_write_fails [OF assms bad]
  show "fst (incrementCodeAttempts (alarmId s) w) = 0"
    and "codesItem (snd (incrementCodeAttempts (alarmId s) w)) = codesItem w"
    and "log (snd (incrementCodeAttempts (alarmId s) w)) = log w"
    using f by simp_all
  show "\<forall>cd. dismissalCodeData s = Some cd \<and> toUpperCase (trim (userInput s)) \<noteq> code cd \<longrightarrow>
           handleSubmit s w =
             (Ok (), s\<lparr>attemptsState := 0, userInput := []\<rparr>,
              emit (Alerted (IncorrectCode 5)) (snd (incrementCodeAttempts (alarmId s) w)))"
    using f handleSubmit_wrong_after_failed_write [of s w] by blast
qed

text \<open>
  C7, amended, at concrete inputs: a wrong submission on the ringing screen, once in a
  world whose third platform call would throw (the attempt is persisted first and then
  reported), and once in a world whose second platform call, the write, throws (nothing
  is persisted and the wrong code is reported all the same).
\<close>

theorem handleSubmit_persists_first_witness:
  "(storedCode (exampleWorld\<lparr>faults := [False, False, True]\<rparr>)
      (alarmId (ringingScreen\<lparr>userInput := ''X''\<rparr>)) = Some liveCode \<and>
    \<not> fst (extcall (exampleWorld\<lparr>faults := [False, False, True]\<rparr>)) \<and>
    \<not> fst (extcall (snd (extcall (exampleWorld\<lparr>faults := [False, False, True]\<rparr>)))) \<and>
    (\<exists>w1 ext.
       storedCode w1 ''1'' = Some (liveCode\<lparr>attempts := Some 1\<rparr>) \<and>
       log w1 = [SetCodes (codesItem w1)] \<and>
       log (snd (snd (handleSubmit (ringingScreen\<lparr>userInput := ''X''\<rparr>)
              (exampleWorld\<lparr>faults := [False, False, True]\<rparr>)))) = log w1 @ ext \<and>
       (\<exists>a. Alerted a \<in> set ext) \<and>
       codesItem (snd (snd (handleSubmit (ringingScreen\<lparr>userInput := ''X''\<rparr>)
              (exampleWorld\<lparr>faults := [False, False, True]\<rparr>)))) = codesItem w1)) \<and>
   (storedCode (exampleWorld\<lparr>faults := [False, True]\<rparr>)
      (alarmId (ringingScreen\<lparr>userInput := ''X''\<rparr>)) = Some liveCode \<and>
    \<not> fst (extcall (exampleWorld\<lparr>faults := [False, True]\<rparr>)) \<and>
    fst (extcall (snd (extcall (exampleWorld\<lparr>faults := [False, True]\<rparr>)))) \<and>
    fst (incrementCodeAttempts ''1'' (exampleWorld\<lparr>faults := [False, True]\<rparr>)) = 0 \<and>
    codesItem (snd (incrementCodeAttempts ''1'' (exampleWorld\<lparr>faults := [False, True]\<rparr>))) =
      [(''1'', liveCode)])"
proof -
  let ?s = "ringingScreen\<lparr>userInput := ''X''\<rparr>"
  let ?w = "exampleWorld\<lparr>faults := [False, False, True]\<rparr>"
  let ?v = "exampleWorld\<lparr>faults := [False, True]\<rparr>"
  have e: "alarmId ?s = ''1''" "log ?w = []" "codesItem ?v = [(''1'', liveCode)]"
    "orZero (recordAttempts ?w liveCode) + 1 = 1"
    by (simp_all add: exampleWorld_def ringingScreen_def liveCode_def orZero_def
        recordAttempts_def)
  have h1: "storedCode ?w (alarmId ?s) = Some liveCode"
    and g1: "storedCode ?v (alarmId ?s) = Some liveCode"
    by (simp_all add: storedCode_def exampleWorld_def ringingScreen_def)
  have h2: "\<not> fst (extcall ?w)" and h3: "\<not> fst (extcall (snd (extcall ?w)))"
    and g2: "\<not> fst (extcall ?v)" and g3: "fst (extcall (snd (extcall ?v)))"
    by (simp_all add: extcall_def exampleWorld_def)
  have ok: "fst (handleSubmit ?s ?w) = Ok ()"
    and wrong: "\<forall>cd. dismissalCodeData ?s = Some cd \<longrightarrow>
                  toUpperCase (trim (userInput ?s)) \<noteq> code cd"
    by (simp_all add: submit_eval ringingScreen_def exampleWorld_def liveCode_def)
  from handleSubmit_persists_first [OF h1 h2] h3 obtain w1 ext where
    a: "storedCode w1 (alarmId ?s) =
          Some (liveCode\<lparr>attempts := Some (orZero (recordAttempts ?w liveCode) + 1)\<rparr>)"
      "log w1 = log ?w @ [SetCodes (codesItem w1)]"
      "log (snd (snd (handleSubmit ?s ?w))) = log w1 @ ext"
      "fst (handleSubmit ?s ?w) = Ok () \<longrightarrow> (\<exists>a. Alerted a \<in> set ext)"
      "5 < orZero (recordAttempts ?w liveCode) + 1 \<or>
        (\<forall>cd. dismissalCodeData ?s = Some cd \<longrightarrow>
                toUpperCase (trim (userInput ?s)) \<noteq> code cd) \<longrightarrow>
       codesItem (snd (snd (handleSubmit ?s ?w))) = codesItem w1"
    by blast
  have first: "\<exists>w1 ext.
       storedCode w1 ''1'' = Some (liveCode\<lparr>attempts := Some 1\<rparr>) \<and>
       log w1 = [SetCodes (codesItem w1)] \<and>
       log (snd (snd (handleSubmit ?s ?w))) = log w1 @ ext \<and>
       (\<exists>a. Alerted a \<in> set ext) \<and>
       codesItem (snd (snd (handleSubmit ?s ?w))) = codesItem w1"
    using a ok wrong unfolding e by (intro exI [of _ w1] exI [of _ ext]) simp
  from handleSubmit_persists_first [OF g1 g2] g3
  have "fst (incrementCodeAttempts (alarmId ?s) ?v) = 0"
    and "codesItem (snd (incrementCodeAttempts (alarmId ?s) ?v)) = codesItem ?v"
    by blast+
  then have second: "fst (incrementCodeAttempts ''1'' ?v) = 0"
    "codesItem (snd (incrementCodeAttempts ''1'' ?v)) = [(''1'', liveCode)]"
    unfolding e by simp_all
  show ?thesis
    by (intro conjI h1 h2 h3 first g1 g2 g3 second)
qed

subsection \<open>Dismissal screen: the countdown\<close>

text \<open>
  The timeout path (the tick of the countdown that reaches zero, and the button of the
  timeout dialog) never touches the stored alarms or the scheduled notifications.
\<close>

lemma timeout_leaves_alarms:
  "alarmsItem (snd (timerTick s w)) = alarmsItem w \<and> pending (snd (timerTick s w)) = pending w \<and>
   alarmsItem (alarmTimeoutOK s w) = alarmsItem w \<and> pending (alarmTimeoutOK s w) = pending w"
proof -
  obtain s1 w1 where st: "stopAlarm s w = (s1, w1)"
    by (cases "stopAlarm s w")
  from stopAlarm_frame [of s w] st
    removeDismissalCode_frame [of "alarmId s" "emit (Navigated ''AlarmList'') w"]
  show ?thesis
    by (simp add: timerTick_def handleTimeout_def alarmTimeoutOK_def emit_def)
qed

lemmas timeout_eval = timerTick_def handleTimeout_def stopAlarm_def alarmTimeoutOK_def
  removeDismissalCode_def deleteProperty_def loadDismissalCodes_def setItemCodes_def extcall_def emit_def
  sessionPhase_def storedAlarm_def storedCode_def

text \<open>
  C4 on the code: the countdown of the ringing screen of the one-time alarm reaches zero.
  The session is timed out, and after the user has closed the dialog the code record is
  gone; but the one-time alarm is still stored as active with its schedule handle, the
  scheduled notifications are the same as before (also for the weekly alarm: nothing was
  cancelled or scheduled), and the interval of the countdown is still set.
\<close>

theorem handleTimeout_keeps_once_alarm_active:
  "sessionPhase (snd (timerTick (ringingScreen\<lparr>timeRemaining := 1\<rparr>) exampleWorld)) = TimedOut \<and>
   storedAlarm (alarmTimeoutOK (fst (timerTick (ringingScreen\<lparr>timeRemaining := 1\<rparr>) exampleWorld))
       (snd (timerTick (ringingScreen\<lparr>timeRemaining := 1\<rparr>) exampleWorld))) ''1'' = Some onceAlarm \<and>
   frequency onceAlarm = ''once'' \<and> isActive onceAlarm \<and> notificationId onceAlarm = Some ''n1'' \<and>
   pending (alarmTimeoutOK (fst (timerTick (ringingScreen\<lparr>timeRemaining := 1\<rparr>) exampleWorld))
       (snd (timerTick (ringingScreen\<lparr>timeRemaining := 1\<rparr>) exampleWorld))) = pending exampleWorld \<and>
   storedCode (alarmTimeoutOK (fst (timerTick (ringingScreen\<lparr>timeRemaining := 1\<rparr>) exampleWorld))
       (snd (timerTick (ringingScreen\<lparr>timeRemaining := 1\<rparr>) exampleWorld))) ''1'' = None \<and>
   timerRef (fst (timerTick (ringingScreen\<lparr>timeRemaining := 1\<rparr>) exampleWorld)) \<and>
   pending (alarmTimeoutOK (fst (timerTick weeklyScreen exampleWorld))
       (snd (timerTick weeklyScreen exampleWorld))) = pending exampleWorld"
  by (simp add: timeout_eval ringingScreen_def weeklyScreen_def exampleWorld_def onceAlarm_def
      weeklyAlarm_def liveCode_def)

end
